theory Spec2Isabelle
  imports Complex_Main "HOL-Library.List_Lexorder" "HOL-Library.Char_ord"
begin

section \<open>Data model (models/orders.ts)\<close>

text \<open>
  Dates are milliseconds since the epoch (what a JavaScript \<open>Date\<close> holds), amounts
  and caps are JavaScript numbers used as integers, strings are strings.
  \<open>OpenOrderStatus\<close> is \<open>OrderStatus | "opened"\<close>.
\<close>

datatype OpenOrderStatus = opened | pending | completed | failed

datatype OrderOrigin = marketplace | external

datatype OfferType = earn | spend

text \<open>\<open>OrderStatusAndNegation\<close>: a status, or a status prefixed with \<open>!\<close>.\<close>

datatype OrderStatusAndNegation = Is OpenOrderStatus | IsNot OpenOrderStatus

record OrderError =
  code :: int
  error_name :: string
  message :: "string option"

text \<open>
  \<open>OrderMeta\<close> with the optional fields of \<open>MarketPlaceOrderMeta\<close> and the
  \<open>wallet_address\<close> that \<open>createExternalOrder\<close> stores in it.
\<close>

record OrderMeta =
  title :: string
  description :: string
  call_to_action :: "string option"
  content :: "string option"
  wallet_address :: "string option"

record BlockchainData =
  transaction_id :: "string option"
  sender_address :: "string option"
  recipient_address :: "string option"

text \<open>
  The optional field \<open>currentStatusDate?: Date\<close> of an order object: \<open>undefined\<close>
  on an object that never had it set, \<open>null\<close> on an object read from a row whose
  column \<open>completion_date\<close> is empty, or a date.
\<close>

datatype StatusDate = Undefined | NullDate | Date int

text \<open>
  An order object and, in the table, a row of \<open>orders\<close>. \<open>currentStatusDate\<close> is
  the nullable column \<open>completion_date\<close>; \<open>createdDate\<close> comes from
  \<open>CreationDateModel\<close>.
\<close>

record Order =
  order_id :: string
  origin :: OrderOrigin
  order_type :: OfferType
  blockchainData :: "BlockchainData option"
  userId :: string
  offerId :: string
  meta :: OrderMeta
  order_error :: "OrderError option"
  amount :: int
  status :: OpenOrderStatus
  currentStatusDate :: StatusDate
  order_value :: "string option"
  createdDate :: int

text \<open>\<open>setStatus\<close>: the status and the date of the transition, \<open>new Date()\<close>.\<close>

definition setStatus :: "int \<Rightarrow> OpenOrderStatus \<Rightarrow> Order \<Rightarrow> Order" where
  "setStatus now s ord = ord\<lparr>status := s, currentStatusDate := Date now\<rparr>"

text \<open>
  The getter \<open>expirationDate\<close> returns \<open>Date | null\<close>. It reads the clock when the
  status date of a pending order is \<open>undefined\<close>: \<open>moment(undefined)\<close> is the current
  time \<open>now\<close>. \<open>moment(null)\<close> is an invalid moment whose \<open>toDate()\<close> is an
  invalid date: every comparison with it is false.
\<close>

datatype Expiry = Null | At int | InvalidDate

definition minutes :: "int \<Rightarrow> int" where
  "minutes n = n * 60000"

definition seconds :: "int \<Rightarrow> int" where
  "seconds n = n * 1000"

definition expirationDate :: "int \<Rightarrow> Order \<Rightarrow> Expiry" where
  "expirationDate now ord =
     (case status ord of
        opened \<Rightarrow> At (createdDate ord + minutes 10)
      | pending \<Rightarrow>
          (case currentStatusDate ord of
             Date d \<Rightarrow> At (d + seconds 45)
           | Undefined \<Rightarrow> At (now + seconds 45)
           | NullDate \<Rightarrow> InvalidDate)
      | _ \<Rightarrow> Null)"

text \<open>\<open>a < b\<close> on an expiration date and the clock; false for an invalid date.\<close>

definition expiry_before :: "Expiry \<Rightarrow> int \<Rightarrow> bool" where
  "expiry_before e now = (case e of At t \<Rightarrow> t < now | Null \<Rightarrow> 0 < now | InvalidDate \<Rightarrow> False)"

text \<open>
  \<open>isMarketplaceOrder\<close> and \<open>isExternalOrder\<close> compare the constructor of the
  object with a class. The constructor is the class the object was built by, named as
  \<open>CLASS_ORIGIN\<close> names it: \<open>None\<close> for \<open>Order\<close>, which builds every object
  read through \<open>db.Order\<close>, and the origin for \<open>MarketplaceOrder\<close> and
  \<open>ExternalOrder\<close>.
\<close>

definition isMarketplaceOrder :: "OrderOrigin option \<Rightarrow> bool" where
  "isMarketplaceOrder ctor = (ctor = Some marketplace)"

definition isExternalOrder :: "OrderOrigin option \<Rightarrow> bool" where
  "isExternalOrder ctor = (ctor = Some external)"

text \<open>
  Modelled from the spec: the class \<open>Offer\<close> of models/offers.ts, which is not among
  the sources. The services read its id, amount, type, the two caps \<open>cap.total\<close> and
  \<open>cap.per_user\<close>, and \<open>meta.order_meta\<close>.
\<close>

record Offer =
  offer_id :: string
  offer_amount :: int
  offer_type :: OfferType
  cap_total :: int
  cap_per_user :: int
  order_meta :: OrderMeta

text \<open>The offer that \<open>validateSpendJWT\<close> reads out of a partner's token.\<close>

record ExternalOffer =
  ext_id :: string
  ext_amount :: int
  ext_title :: string
  ext_description :: string
  ext_wallet_address :: string

text \<open>Every failure of the services is a JavaScript \<open>Error\<close> carrying a message.\<close>

datatype Error = Error string

text \<open>One call of the payment capability: \<open>payTo(walletAddress, appId, amount, orderId)\<close>.\<close>

record PayCall =
  pay_wallet :: string
  pay_app :: string
  pay_amount :: int
  pay_order :: string

text \<open>
  The persisted state: the \<open>orders\<close> table, the \<open>offers\<close> table, and the log of
  the calls made to the payment capability.
\<close>

record State =
  orders :: "Order list"
  offers :: "Offer list"
  payments :: "PayCall list"

text \<open>
  What the services take from outside the sources, as parameters:
  \<^item> \<open>class_scoped\<close>: whether the library's \<open>findOne\<close> and \<open>count\<close>, called on
    \<open>MarketplaceOrder\<close> or \<open>ExternalOrder\<close>, see only the rows of that origin;
  \<^item> \<open>nulls_first\<close>: whether the database puts an empty \<open>completion_date\<close> first
    under \<open>ORDER BY ... DESC\<close>;
  \<^item> \<open>save_landed\<close>: whether the save that \<open>checkIfTimedOut\<close> starts and does not
    await has reached the table when the read returns (by order id);
  \<^item> \<open>validateSpendJWT\<close>, \<open>isValid\<close> (offer contents) and \<open>payTo\<close>: the
    collaborators; \<open>payTo\<close> gives the error it throws, if any.
\<close>

record Env =
  class_scoped :: bool
  nulls_first :: bool
  save_landed :: "string \<Rightarrow> bool"
  validateSpendJWT :: "string \<Rightarrow> Error + ExternalOffer"
  isValid :: "string \<Rightarrow> string option \<Rightarrow> bool"
  payTo :: "PayCall \<Rightarrow> Error option"

section \<open>The entity store\<close>

definition in_class :: "bool \<Rightarrow> OrderOrigin option \<Rightarrow> Order \<Rightarrow> bool" where
  "in_class scoped cls ord =
     (case cls of None \<Rightarrow> True | Some c \<Rightarrow> (if scoped then origin ord = c else True))"

text \<open>\<open>findOne({ where })\<close> and \<open>count({ where })\<close> of the entity class \<open>cls\<close>.\<close>

definition findOne :: "Env \<Rightarrow> OrderOrigin option \<Rightarrow> (Order \<Rightarrow> bool) \<Rightarrow> Order list \<Rightarrow> Order option" where
  "findOne env cls wh rows = find (\<lambda>r. wh r \<and> in_class (class_scoped env) cls r) rows"

definition count_rows :: "Env \<Rightarrow> OrderOrigin option \<Rightarrow> (Order \<Rightarrow> bool) \<Rightarrow> Order list \<Rightarrow> int" where
  "count_rows env cls wh rows =
     int (length (filter (\<lambda>r. wh r \<and> in_class (class_scoped env) cls r) rows))"

text \<open>
  \<open>save()\<close>: the id is the primary key, so saving an order whose id is in the table
  replaces that row, and saving a new id adds a row. The row written has an empty
  \<open>completion_date\<close> where the object's status date is \<open>undefined\<close>, and a row
  read back carries \<open>null\<close> there. \<open>remove()\<close> deletes by id.
\<close>

definition persisted :: "Order \<Rightarrow> Order" where
  "persisted ord =
     (case currentStatusDate ord of
        Undefined \<Rightarrow> ord\<lparr>currentStatusDate := NullDate\<rparr>
      | _ \<Rightarrow> ord)"

fun upsert :: "Order \<Rightarrow> Order list \<Rightarrow> Order list" where
  "upsert ord [] = [ord]"
| "upsert ord (r # rs) = (if order_id r = order_id ord then ord # rs else r # upsert ord rs)"

definition save :: "Order \<Rightarrow> Order list \<Rightarrow> Order list" where
  "save ord rows = upsert (persisted ord) rows"

definition remove :: "Order \<Rightarrow> Order list \<Rightarrow> Order list" where
  "remove ord rows = filter (\<lambda>r. order_id r \<noteq> order_id ord) rows"

definition Offer_findOne :: "Offer list \<Rightarrow> string \<Rightarrow> Offer option" where
  "Offer_findOne rows offerId' = find (\<lambda>f. offer_id f = offerId') rows"

fun updateQueryWithStatus :: "OrderStatusAndNegation option \<Rightarrow> Order \<Rightarrow> bool" where
  "updateQueryWithStatus None r = True"
| "updateQueryWithStatus (Some (IsNot s)) r = (status r \<noteq> s)"
| "updateQueryWithStatus (Some (Is s)) r = (status r = s)"

definition origin_filter :: "OrderOrigin option \<Rightarrow> Order \<Rightarrow> bool" where
  "origin_filter cls r = (case cls of None \<Rightarrow> True | Some c \<Rightarrow> origin r = c)"

definition getOne :: "OrderOrigin option \<Rightarrow> Order list \<Rightarrow> string \<Rightarrow> OrderStatusAndNegation option \<Rightarrow> Order option" where
  "getOne cls rows orderId st =
     find (\<lambda>r. order_id r = orderId \<and> updateQueryWithStatus st r \<and> origin_filter cls r) rows"

text \<open>
  \<open>ORDER BY completion_date DESC, id DESC\<close>: \<open>completion_date_column\<close> is the value
  of the column, \<open>date_desc\<close> says that one value comes strictly before another,
  \<open>row_before\<close> that a row comes before (or is) another. Ids are compared as byte
  strings.
\<close>

definition completion_date_column :: "Order \<Rightarrow> int option" where
  "completion_date_column ord = (case currentStatusDate ord of Date d \<Rightarrow> Some d | _ \<Rightarrow> None)"

fun date_desc :: "bool \<Rightarrow> int option \<Rightarrow> int option \<Rightarrow> bool" where
  "date_desc nf (Some a) (Some b) = (b < a)"
| "date_desc nf None (Some b) = nf"
| "date_desc nf (Some a) None = (\<not> nf)"
| "date_desc nf None None = False"

definition row_before :: "bool \<Rightarrow> Order \<Rightarrow> Order \<Rightarrow> bool" where
  "row_before nf a b =
     (if completion_date_column a = completion_date_column b then order_id b \<le> order_id a
      else date_desc nf (completion_date_column a) (completion_date_column b))"

fun insert_row :: "('a \<Rightarrow> 'a \<Rightarrow> bool) \<Rightarrow> 'a \<Rightarrow> 'a list \<Rightarrow> 'a list" where
  "insert_row le x [] = [x]"
| "insert_row le x (y # ys) = (if le x y then x # y # ys else y # insert_row le x ys)"

definition order_by :: "('a \<Rightarrow> 'a \<Rightarrow> bool) \<Rightarrow> 'a list \<Rightarrow> 'a list" where
  "order_by le xs = foldr (insert_row le) xs []"

text \<open>\<open>getAll\<close>: \<open>if (limit)\<close> applies the limit only when it is not zero.\<close>

definition getAll :: "bool \<Rightarrow> OrderOrigin option \<Rightarrow> Order list \<Rightarrow> string \<Rightarrow> OrderStatusAndNegation option \<Rightarrow> nat option \<Rightarrow> Order list" where
  "getAll nf cls rows uid st limit =
     (let sel = order_by (row_before nf)
                  (filter (\<lambda>r. userId r = uid \<and> updateQueryWithStatus st r \<and> origin_filter cls r) rows)
      in case limit of
           None \<Rightarrow> sel
         | Some n \<Rightarrow> (if n \<noteq> 0 then take n sel else sel))"

section \<open>The order services (public/services/orders.ts)\<close>

text \<open>
  Every service takes the state and returns the state it leaves with either the error it
  throws or its value. The clock \<open>now\<close> is read once per call. Logging and metrics
  are left out. The services read orders through \<open>db.Order\<close>, so the objects they
  pass to \<open>orderDbToApi\<close> have the constructor \<open>Order\<close>.
\<close>

record OpenOrder =
  open_id :: string
  expiration_date :: int

record ApiOrder =
  api_id :: string
  api_offer_id :: string
  api_status :: OpenOrderStatus
  api_error :: "OrderError option"
  completion_date :: int
  api_title :: string
  api_description :: string
  api_amount :: int
  api_offer_type :: "OfferType option"
  api_content :: "string option"
  api_blockchain_data :: "BlockchainData option"
  api_call_to_action :: "string option"

record Paging =
  cursor_after :: string
  cursor_before :: string
  previous :: string
  next_page :: string

record OrderList =
  list_orders :: "ApiOrder list"
  paging :: Paging

text \<open>
  \<open>orderDbToApi\<close>, given the constructor of the object. The completion date is
  \<open>currentStatusDate || createdDate\<close>; an object for which \<open>isMarketplaceOrder\<close>
  holds carries the offer type, content, blockchain data and call to action, any other
  the recipient address of its meta.
\<close>

definition orderDbToApi :: "OrderOrigin option \<Rightarrow> Order \<Rightarrow> Error + ApiOrder" where
  "orderDbToApi ctor ord =
     (if status ord = opened then Inl (Error ''opened orders should not be returned'')
      else
        let base = \<lparr> api_id = order_id ord,
                     api_offer_id = offerId ord,
                     api_status = status ord,
                     api_error = order_error ord,
                     completion_date =
                       (case currentStatusDate ord of Date d \<Rightarrow> d | _ \<Rightarrow> createdDate ord),
                     api_title = title (meta ord),
                     api_description = description (meta ord),
                     api_amount = amount ord,
                     api_offer_type = None,
                     api_content = None,
                     api_blockchain_data = None,
                     api_call_to_action = None \<rparr>
        in Inr (if isMarketplaceOrder ctor
                then base\<lparr> api_offer_type := Some (order_type ord),
                           api_content := content (meta ord),
                           api_blockchain_data := blockchainData ord,
                           api_call_to_action := call_to_action (meta ord) \<rparr>
                else base\<lparr> api_blockchain_data :=
                             Some \<lparr> transaction_id = None, sender_address = None,
                                     recipient_address = wallet_address (meta ord) \<rparr> \<rparr>))"

text \<open>
  \<open>checkIfTimedOut\<close> changes the order in memory and starts a save that no caller
  awaits: the order returned is the changed one, the table has it only if the save landed.
\<close>

definition checkIfTimedOut :: "Env \<Rightarrow> int \<Rightarrow> State \<Rightarrow> Order \<Rightarrow> State \<times> Order" where
  "checkIfTimedOut env now st ord =
     (if status ord = pending \<and> expiry_before (expirationDate now ord) now
      then let ord' = setStatus now failed ord
           in (if save_landed env (order_id ord')
               then st\<lparr>orders := save ord' (orders st)\<rparr> else st, ord')
      else (st, ord))"

definition getOrder :: "Env \<Rightarrow> int \<Rightarrow> State \<Rightarrow> string \<Rightarrow> State \<times> (Error + ApiOrder)" where
  "getOrder env now st orderId =
     (case getOne None (orders st) orderId (Some (IsNot opened)) of
        None \<Rightarrow> (st, Inl (Error (''no such order '' @ orderId @ '' or order is open'')))
      | Some ord \<Rightarrow>
          (let (st', ord') = checkIfTimedOut env now st ord
           in (st', orderDbToApi None ord')))"

text \<open>
  \<open>order.expirationDate!.toISOString()\<close> throws on \<open>null\<close> and on an invalid date.
\<close>

definition toOpenOrder :: "int \<Rightarrow> Order \<Rightarrow> Error + OpenOrder" where
  "toOpenOrder now ord =
     (case expirationDate now ord of
        At t \<Rightarrow> Inr \<lparr> open_id = order_id ord, expiration_date = t \<rparr>
      | Null \<Rightarrow> Inl (Error ''TypeError'')
      | InvalidDate \<Rightarrow> Inl (Error ''RangeError''))"

text \<open>
  Modelled from the spec: \<open>CreationDateModel.new\<close> of models/index.ts, which is not
  among the sources and which \<open>MarketplaceOrder.new\<close> and \<open>ExternalOrder.new\<close>
  call. The new order has the id drawn by \<open>generateId\<close> (the initializer of
  \<open>Order\<close>), the clock as its creation date, the fields given, and the origin of its
  class.
\<close>

definition new_order :: "OrderOrigin \<Rightarrow> string \<Rightarrow> int \<Rightarrow> string \<Rightarrow> string \<Rightarrow> int \<Rightarrow> OfferType \<Rightarrow> OrderMeta \<Rightarrow> Order" where
  "new_order org newId now uid oid amt ty m =
     \<lparr> order_id = newId, origin = org, order_type = ty, blockchainData = None,
       userId = uid, offerId = oid, meta = m, order_error = None, amount = amt,
       status = opened, currentStatusDate = Undefined, order_value = None, createdDate = now \<rparr>"

text \<open>The inner function \<open>create\<close> of \<open>createMarketplaceOrder\<close>.\<close>

definition create :: "Env \<Rightarrow> int \<Rightarrow> string \<Rightarrow> State \<Rightarrow> Offer \<Rightarrow> string \<Rightarrow> string \<Rightarrow> (State \<times> Order) option" where
  "create env now newId st offer offerId' userId' =
     (let total = count_rows env (Some marketplace) (\<lambda>r. offerId r = offerId') (orders st)
      in if total = cap_total offer then None
         else
           let forUser = count_rows env (Some marketplace)
                           (\<lambda>r. userId r = userId' \<and> offerId r = offerId') (orders st)
           in if forUser = cap_per_user offer then None
              else
                let ord = new_order marketplace newId now userId' offerId'
                            (offer_amount offer) (offer_type offer) (order_meta offer)
                in Some (st\<lparr>orders := save ord (orders st)\<rparr>, ord))"

definition createMarketplaceOrder :: "Env \<Rightarrow> int \<Rightarrow> string \<Rightarrow> State \<Rightarrow> string \<Rightarrow> string \<Rightarrow> State \<times> (Error + OpenOrder)" where
  "createMarketplaceOrder env now newId st offerId' userId' =
     (case Offer_findOne (offers st) offerId' of
        None \<Rightarrow> (st, Inl (Error (''cannot create order, offer '' @ offerId' @ '' not found'')))
      | Some offer \<Rightarrow>
          (case findOne env (Some marketplace)
                  (\<lambda>r. userId r = userId' \<and> offerId r = offerId' \<and> status r = opened) (orders st) of
             Some ord \<Rightarrow> (st, toOpenOrder now ord)
           | None \<Rightarrow>
               (case create env now newId st offer offerId' userId' of
                  None \<Rightarrow> (st, Inl (Error (''offer '' @ offerId' @ '' cap reached'')))
                | Some (st', ord) \<Rightarrow> (st', toOpenOrder now ord))))"

text \<open>
  \<open>createMarketplaceOrder\<close> awaits each query, and other requests are served while it
  waits. Its two lookups, of the offer and of the opened order, and what it does with
  their answers on the state the table has by then, are the two parts below; the call
  served alone is the first part followed at once by the second.
\<close>

definition createMarketplaceOrder_lookup :: "Env \<Rightarrow> State \<Rightarrow> string \<Rightarrow> string \<Rightarrow> Error + (Offer \<times> Order option)" where
  "createMarketplaceOrder_lookup env st offerId' userId' =
     (case Offer_findOne (offers st) offerId' of
        None \<Rightarrow> Inl (Error (''cannot create order, offer '' @ offerId' @ '' not found''))
      | Some offer \<Rightarrow>
          Inr (offer, findOne env (Some marketplace)
                        (\<lambda>r. userId r = userId' \<and> offerId r = offerId' \<and> status r = opened)
                        (orders st)))"

definition createMarketplaceOrder_rest :: "Env \<Rightarrow> int \<Rightarrow> string \<Rightarrow> State \<Rightarrow> string \<Rightarrow> string \<Rightarrow> Offer \<times> Order option \<Rightarrow> State \<times> (Error + OpenOrder)" where
  "createMarketplaceOrder_rest env now newId st offerId' userId' looked =
     (case looked of
        (offer, Some ord) \<Rightarrow> (st, toOpenOrder now ord)
      | (offer, None) \<Rightarrow>
          (case create env now newId st offer offerId' userId' of
             None \<Rightarrow> (st, Inl (Error (''offer '' @ offerId' @ '' cap reached'')))
           | Some (st', ord) \<Rightarrow> (st', toOpenOrder now ord)))"

definition createExternalOrder :: "Env \<Rightarrow> int \<Rightarrow> string \<Rightarrow> State \<Rightarrow> string \<Rightarrow> string \<Rightarrow> State \<times> (Error + OpenOrder)" where
  "createExternalOrder env now newId st jwt userId' =
     (case validateSpendJWT env jwt of
        Inl e \<Rightarrow> (st, Inl e)
      | Inr offer \<Rightarrow>
          (case findOne env (Some external)
                  (\<lambda>r. userId r = userId' \<and> status r = opened \<and> offerId r = ext_id offer) (orders st) of
             Some ord \<Rightarrow> (st, toOpenOrder now ord)
           | None \<Rightarrow>
               (let ord = new_order external newId now userId' (ext_id offer) (ext_amount offer) spend
                            \<lparr> title = ext_title offer, description = ext_description offer,
                              call_to_action = None, content = None,
                              wallet_address = Some (ext_wallet_address offer) \<rparr>
                in (st\<lparr>orders := save ord (orders st)\<rparr>, toOpenOrder now ord))))"

definition submitOrder :: "Env \<Rightarrow> int \<Rightarrow> State \<Rightarrow> string \<Rightarrow> string option \<Rightarrow> string \<Rightarrow> string \<Rightarrow> State \<times> (Error + ApiOrder)" where
  "submitOrder env now st orderId form walletAddress appId =
     (case findOne env None (\<lambda>r. order_id r = orderId) (orders st) of
        None \<Rightarrow> (st, Inl (Error (''no such order '' @ orderId)))
      | Some ord \<Rightarrow>
          if status ord \<noteq> opened then (st, orderDbToApi None ord)
          else if expiry_before (expirationDate now ord) now
          then (st, Inl (Error (''open order '' @ orderId @ '' has expired'')))
          else
            (case Offer_findOne (offers st) (offerId ord) of
               None \<Rightarrow> (st, Inl (Error (''no such offer '' @ offerId ord)))
             | Some offer \<Rightarrow>
                 if offer_type offer = earn \<and> \<not> isValid env (offer_id offer) form
                 then (st, Inl (Error (''submitted form is invalid for '' @ order_id ord)))
                 else
                   let ord' = setStatus now pending ord;
                       st1 = st\<lparr>orders := save ord' (orders st)\<rparr>
                   in if offer_type offer = earn
                      then
                        let call = \<lparr> pay_wallet = walletAddress, pay_app = appId,
                                     pay_amount = offer_amount offer, pay_order = order_id ord' \<rparr>;
                            st2 = st1\<lparr>payments := payments st1 @ [call]\<rparr>
                        in (case payTo env call of
                              Some e \<Rightarrow> (st2, Inl e)
                            | None \<Rightarrow> (st2, orderDbToApi None ord'))
                      else (st1, orderDbToApi None ord')))"

definition cancelOrder :: "State \<Rightarrow> string \<Rightarrow> State \<times> (Error + unit)" where
  "cancelOrder st orderId =
     (case getOne None (orders st) orderId (Some (Is opened)) of
        None \<Rightarrow> (st, Inl (Error (''no such open order '' @ orderId)))
      | Some ord \<Rightarrow> (st\<lparr>orders := remove ord (orders st)\<rparr>, Inr ()))"

text \<open>
  The \<open>orders.map\<close> of \<open>getOrderHistory\<close>: each row goes through
  \<open>checkIfTimedOut\<close> and \<open>orderDbToApi\<close>, in order; an error ends the map.
\<close>

fun history_map :: "Env \<Rightarrow> int \<Rightarrow> State \<Rightarrow> Order list \<Rightarrow> State \<times> (Error + ApiOrder list)" where
  "history_map env now st [] = (st, Inr [])"
| "history_map env now st (r # rs) =
     (let (st1, r') = checkIfTimedOut env now st r
      in case orderDbToApi None r' of
           Inl e \<Rightarrow> (st1, Inl e)
         | Inr a \<Rightarrow>
             (case history_map env now st1 rs of
                (st2, Inl e) \<Rightarrow> (st2, Inl e)
              | (st2, Inr as) \<Rightarrow> (st2, Inr (a # as))))"

text \<open>
  \<open>getOrderHistory\<close>: \<open>limit\<close> defaults to 25; \<open>before\<close> and \<open>after\<close> are
  parameters of the function and the paging it returns is a constant.
\<close>

definition getOrderHistory :: "Env \<Rightarrow> int \<Rightarrow> State \<Rightarrow> string \<Rightarrow> nat option \<Rightarrow> string option \<Rightarrow> string option \<Rightarrow> State \<times> (Error + OrderList)" where
  "getOrderHistory env now st userId' limit before after =
     (let rows = getAll (nulls_first env) None (orders st) userId' (Some (IsNot opened))
                   (Some (case limit of None \<Rightarrow> 25 | Some n \<Rightarrow> n))
      in case history_map env now st rows of
           (st', Inl e) \<Rightarrow> (st', Inl e)
         | (st', Inr as) \<Rightarrow>
             (st', Inr \<lparr> list_orders = as,
                        paging = \<lparr> cursor_after = ''MTAxNTExOTQ1MjAwNzI5NDE'',
                                   cursor_before = ''NDMyNzQyODI3OTQw'',
                                   previous = ''https://api.kinmarketplace.com/v1/orders?limit=25&before=NDMyNzQyODI3OTQw'',
                                   next_page = ''https://api.kinmarketplace.com/v1/orders?limit=25&after=MTAxNTExOTQ1MjAwNzI5NDE='' \<rparr> \<rparr>))"

section \<open>JavaScript numbers\<close>

text \<open>
  A JavaScript number is a binary64 floating-point number, and each arithmetic
  operation gives the exact result rounded to the nearest such number, ties to the even
  mantissa. \<open>double\<close> is that rounding for a significand of 53 bits; the exponent is
  left unbounded, so there is no overflow to infinity and there are no subnormal
  numbers. \<open>bits n\<close> is the length of \<open>n\<close> in binary, \<open>binade x\<close> the exponent
  \<open>e\<close> with \<open>2^e \<le> |x| < 2^(e+1)\<close>.
\<close>

function bits :: "int \<Rightarrow> int" where
  "bits n = (if n \<le> 0 then 0 else 1 + bits (n div 2))"
  by pat_completeness auto
termination
  by (relation "measure (\<lambda>n. nat n)") auto

declare bits.simps [simp del]

definition binade :: "rat \<Rightarrow> int" where
  "binade x =
     (if 1 \<le> \<bar>x\<bar> then bits \<lfloor>\<bar>x\<bar>\<rfloor> - 1
      else - bits (\<lceil>1 / \<bar>x\<bar>\<rceil> - 1))"

definition scale2 :: "rat \<Rightarrow> int \<Rightarrow> rat" where
  "scale2 x e = (if 0 \<le> e then x * 2 ^ nat e else x / 2 ^ nat (- e))"

definition round_half_even :: "rat \<Rightarrow> int" where
  "round_half_even x =
     (let f = \<lfloor>x\<rfloor>; d = x - of_int f
      in if d < 1 / 2 then f
         else if 1 / 2 < d then f + 1
         else if even f then f else f + 1)"

definition double :: "rat \<Rightarrow> rat" where
  "double x =
     (if x = 0 then 0
      else let e = binade x - 52
           in scale2 (of_int (round_half_even (scale2 x (- e)))) e)"

section \<open>The rate limiter (utils/RateLimit.ts)\<close>

text \<open>
  The key-value store: each key holds an integer (written by \<open>INCRBY\<close>) and may have
  a time to live. The window size is \<open>duration.asSeconds()\<close>, the limit a number.
\<close>

record Redis =
  vals :: "string \<rightharpoonup> int"
  expiry :: "string \<rightharpoonup> rat"

record RateLimit =
  bucketPrefix :: string
  rateLimitValue :: rat
  windowSize :: rat
  ttl :: rat


definition incrby :: "string \<Rightarrow> int \<Rightarrow> Redis \<Rightarrow> Redis" where
  "incrby k step r = r\<lparr>vals := (vals r)(k \<mapsto> (case vals r k of None \<Rightarrow> 0 | Some v \<Rightarrow> v) + step)\<rparr>"

definition expire :: "string \<Rightarrow> rat \<Rightarrow> Redis \<Rightarrow> Redis" where
  "expire k t r = (if vals r k = None then r else r\<lparr>expiry := (expiry r)(k \<mapsto> t)\<rparr>)"

definition mget :: "string list \<Rightarrow> Redis \<Rightarrow> int option list" where
  "mget ks r = map (vals r) ks"

definition bucketSize :: "RateLimit \<Rightarrow> rat" where
  "bucketSize rl = max (double (windowSize rl / 60)) 1"

text \<open>
  The loop \<open>for (let i = 0; i < this.windowSize; i += bucketSize)\<close> that pushes
  \<open>bucketPrefix + (currentTimestampSeconds - i)\<close>, with the additions and subtractions
  of JavaScript numbers. \<open>toStr\<close> is the conversion of a number to a string, a
  parameter of the model. The result is \<open>None\<close> when the loop does not end.
\<close>

partial_function (option) windowKeys_from :: "(rat \<Rightarrow> string) \<Rightarrow> RateLimit \<Rightarrow> rat \<Rightarrow> rat \<Rightarrow> string list option" where
  "windowKeys_from toStr rl cur i =
     (if i < windowSize rl
      then Option.bind (windowKeys_from toStr rl cur (double (i + bucketSize rl)))
             (\<lambda>ks. Some ((bucketPrefix rl @ toStr (double (cur - i))) # ks))
      else Some [])"

declare windowKeys_from.simps [code]

text \<open>
  \<open>check\<close>: \<open>nowMs\<close> is \<open>Date.now()\<close>. The list of keys starts with
  \<open>currentTimestampSeconds.toString()\<close>; \<open>filter(val => val)\<close> drops the keys that
  hold nothing, and the sum adds \<open>Number(val)\<close> for the others. The increment and the
  time to live are sent before the keys are built.
\<close>

definition currentTimestampSeconds :: "RateLimit \<Rightarrow> rat \<Rightarrow> rat" where
  "currentTimestampSeconds rl nowMs =
     double (of_int \<lfloor>double (double (nowMs / 1000) / bucketSize rl)\<rfloor> * bucketSize rl)"

definition windowKeys :: "(rat \<Rightarrow> string) \<Rightarrow> RateLimit \<Rightarrow> rat \<Rightarrow> string list option" where
  "windowKeys toStr rl cur = map_option (\<lambda>ks. toStr cur # ks) (windowKeys_from toStr rl cur 0)"

definition rateSum :: "int option list \<Rightarrow> rat" where
  "rateSum vs = foldl (\<lambda>sum val. double (sum + double (of_int val))) 0 (List.map_filter (\<lambda>v. v) vs)"

definition check :: "(rat \<Rightarrow> string) \<Rightarrow> RateLimit \<Rightarrow> rat \<Rightarrow> Redis \<Rightarrow> int \<Rightarrow> (Redis \<times> bool) option" where
  "check toStr rl nowMs redis step =
     (let cur = currentTimestampSeconds rl nowMs;
          currentBucketName = bucketPrefix rl @ toStr cur;
          redis1 = incrby currentBucketName step redis;
          redis2 = expire currentBucketName (ttl rl) redis1
      in map_option (\<lambda>ks. (redis2, rateLimitValue rl \<le> rateSum (mget ks redis2)))
           (windowKeys toStr rl cur))"


definition checkAmount :: "(rat \<Rightarrow> string) \<Rightarrow> RateLimit \<Rightarrow> rat \<Rightarrow> Redis \<Rightarrow> int \<Rightarrow> (Redis \<times> bool) option" where
  "checkAmount toStr rl nowMs redis amount' = check toStr rl nowMs redis amount'"







section \<open>Sequences of calls\<close>

text \<open>
  One request to the services with its clock reading and, for a creation, the id that
  \<open>generateId\<close> draws; a run applies requests one after the other, each with its own
  collaborators, and keeps the state.
\<close>

datatype Call =
    CreateMarketplaceOrder int string string string
  | CreateExternalOrder int string string string
  | SubmitOrder int string "string option" string string
  | CancelOrder string
  | GetOrder int string
  | GetOrderHistory int string "nat option" "string option" "string option"

fun apply_call :: "State \<Rightarrow> Env \<times> Call \<Rightarrow> State" where
  "apply_call st (env, CreateMarketplaceOrder now newId offerId' userId') =
     fst (createMarketplaceOrder env now newId st offerId' userId')"
| "apply_call st (env, CreateExternalOrder now newId jwt userId') =
     fst (createExternalOrder env now newId st jwt userId')"
| "apply_call st (env, SubmitOrder now orderId form walletAddress appId) =
     fst (submitOrder env now st orderId form walletAddress appId)"
| "apply_call st (env, CancelOrder orderId) = fst (cancelOrder st orderId)"
| "apply_call st (env, GetOrder now orderId) = fst (getOrder env now st orderId)"
| "apply_call st (env, GetOrderHistory now userId' limit before after) =
     fst (getOrderHistory env now st userId' limit before after)"

definition run :: "State \<Rightarrow> (Env \<times> Call) list \<Rightarrow> State" where
  "run st calls = foldl apply_call st calls"

text \<open>The number of opened marketplace orders of a user for an offer.\<close>

definition open_count :: "State \<Rightarrow> string \<Rightarrow> string \<Rightarrow> nat" where
  "open_count st uid oid =
     length (filter (\<lambda>r. origin r = marketplace \<and> userId r = uid \<and> offerId r = oid
                          \<and> status r = opened) (orders st))"

text \<open>
  The two counts that \<open>create\<close> compares with the caps, and the requests that are
  marketplace creations.
\<close>

definition offer_count :: "Env \<Rightarrow> State \<Rightarrow> string \<Rightarrow> int" where
  "offer_count env st oid = count_rows env (Some marketplace) (\<lambda>r. offerId r = oid) (orders st)"

definition user_count :: "Env \<Rightarrow> State \<Rightarrow> string \<Rightarrow> string \<Rightarrow> int" where
  "user_count env st uid oid =
     count_rows env (Some marketplace) (\<lambda>r. userId r = uid \<and> offerId r = oid) (orders st)"

fun is_create :: "Call \<Rightarrow> bool" where
  "is_create (CreateMarketplaceOrder now newId oid uid) = True"
| "is_create c = False"

section \<open>Sample data\<close>

text \<open>
  Concrete rows, offers and collaborators, for the instances of the theorems. A sample
  order is a row of the table: its status date is a date or \<open>null\<close>.
\<close>

definition sample_meta :: OrderMeta where
  "sample_meta = \<lparr> title = ''t'', description = ''d'', call_to_action = None,
                    content = None, wallet_address = None \<rparr>"

definition sample_order :: "string \<Rightarrow> string \<Rightarrow> string \<Rightarrow> OpenOrderStatus \<Rightarrow> int option \<Rightarrow> int \<Rightarrow> Order" where
  "sample_order i uid oid s d c =
     \<lparr> order_id = i, origin = marketplace, order_type = earn, blockchainData = None,
       userId = uid, offerId = oid, meta = sample_meta, order_error = None, amount = 10,
       status = s,
       currentStatusDate = (case d of None \<Rightarrow> NullDate | Some t \<Rightarrow> Date t),
       order_value = None, createdDate = c \<rparr>"

definition sample_offer :: "string \<Rightarrow> int \<Rightarrow> int \<Rightarrow> Offer" where
  "sample_offer oid tot per =
     \<lparr> offer_id = oid, offer_amount = 10, offer_type = earn, cap_total = tot,
       cap_per_user = per, order_meta = sample_meta \<rparr>"

definition sample_env :: Env where
  "sample_env =
     \<lparr> class_scoped = True, nulls_first = True, save_landed = (\<lambda>i. False),
       validateSpendJWT = (\<lambda>jwt. Inr \<lparr> ext_id = ''X1'', ext_amount = 5, ext_title = ''t'',
                                        ext_description = ''d'', ext_wallet_address = ''G1'' \<rparr>),
       isValid = (\<lambda>oid form. True),
       payTo = (\<lambda>call. None) \<rparr>"

definition sample_state :: "Order list \<Rightarrow> Offer list \<Rightarrow> State" where
  "sample_state rows offs = \<lparr> orders = rows, offers = offs, payments = [] \<rparr>"

section \<open>Claims about the expiration date\<close>

text \<open>
  C7, as the code has it. The expiration date is the creation date plus ten minutes
  for an opened order, the status date plus 45 seconds for a pending order that has its
  status date, and null for a completed or failed order, whatever the clock; in these
  cases two orders that agree on status, creation date and status date have the same
  expiration date at any two clock readings. A pending order without a status date is
  the exception: with an undefined date the getter returns the clock plus 45 seconds,
  with a null date an invalid date.
\<close>

theorem expirationDate_by_status:
  "(status ord = opened \<longrightarrow> expirationDate now ord = At (createdDate ord + 10 * 60 * 1000))
   \<and> (status ord = pending \<and> currentStatusDate ord = Date d
        \<longrightarrow> expirationDate now ord = At (d + 45 * 1000))
   \<and> (status ord = completed \<or> status ord = failed \<longrightarrow> expirationDate now ord = Null)
   \<and> (status a = status b \<and> createdDate a = createdDate b
        \<and> currentStatusDate a = currentStatusDate b
        \<and> \<not> (status a = pending \<and> currentStatusDate a = Undefined)
        \<longrightarrow> expirationDate now a = expirationDate now' b)
   \<and> (status ord = pending \<and> currentStatusDate ord = Undefined
        \<longrightarrow> expirationDate now ord = At (now + 45 * 1000))
   \<and> (status ord = pending \<and> currentStatusDate ord = NullDate
        \<longrightarrow> expirationDate now ord = InvalidDate)"
  by (auto simp: expirationDate_def minutes_def seconds_def
      split: OpenOrderStatus.splits StatusDate.splits)

theorem expirationDate_by_status_witness:
  "expirationDate 7000 (sample_order ''T1'' ''U1'' ''O1'' opened None 1000) = At 601000
   \<and> expirationDate 7000 (sample_order ''T2'' ''U1'' ''O1'' pending (Some 5000) 1000) = At 50000
   \<and> expirationDate 7000 (sample_order ''T3'' ''U1'' ''O1'' completed (Some 5000) 1000) = Null
   \<and> expirationDate 7000 (sample_order ''T2'' ''U1'' ''O1'' pending (Some 5000) 1000)
       = expirationDate 9000 (sample_order ''T2'' ''U1'' ''O1'' pending (Some 5000) 1000)
   \<and> expirationDate 7000 (sample_order ''T4'' ''U1'' ''O1'' pending None 1000) = InvalidDate"
  using expirationDate_by_status [where ord = "sample_order ''T1'' ''U1'' ''O1'' opened None 1000"
          and now = 7000 and now' = 9000 and d = 0
          and a = "sample_order ''T2'' ''U1'' ''O1'' pending (Some 5000) 1000"
          and b = "sample_order ''T2'' ''U1'' ''O1'' pending (Some 5000) 1000"]
        expirationDate_by_status [where ord = "sample_order ''T2'' ''U1'' ''O1'' pending (Some 5000) 1000"
          and now = 7000 and now' = 9000 and d = 5000
          and a = "sample_order ''T2'' ''U1'' ''O1'' pending (Some 5000) 1000"
          and b = "sample_order ''T2'' ''U1'' ''O1'' pending (Some 5000) 1000"]
        expirationDate_by_status [where ord = "sample_order ''T3'' ''U1'' ''O1'' completed (Some 5000) 1000"
          and now = 7000 and now' = 9000 and d = 0
          and a = "sample_order ''T2'' ''U1'' ''O1'' pending (Some 5000) 1000"
          and b = "sample_order ''T2'' ''U1'' ''O1'' pending (Some 5000) 1000"]
        expirationDate_by_status [where ord = "sample_order ''T4'' ''U1'' ''O1'' pending None 1000"
          and now = 7000 and now' = 9000 and d = 0
          and a = "sample_order ''T2'' ''U1'' ''O1'' pending (Some 5000) 1000"
          and b = "sample_order ''T2'' ''U1'' ''O1'' pending (Some 5000) 1000"]
  by (simp add: sample_order_def)

text \<open>
  The claim as written fails: for a pending order whose status date is undefined the
  expiration date follows the clock, so it is not determined by the status and the two
  timestamps.
\<close>

theorem expirationDate_follows_clock:
  "expirationDate 1000
      ((sample_order ''T1'' ''U1'' ''O1'' pending None 500)\<lparr>currentStatusDate := Undefined\<rparr>)
     = At 46000
   \<and> expirationDate 2000
      ((sample_order ''T1'' ''U1'' ''O1'' pending None 500)\<lparr>currentStatusDate := Undefined\<rparr>)
     = At 47000"
  by (simp add: expirationDate_def seconds_def sample_order_def)

section \<open>Submitting an order\<close>

lemma persisted_fields [simp]:
  "order_id (persisted ord) = order_id ord"
  "origin (persisted ord) = origin ord"
  "userId (persisted ord) = userId ord"
  "offerId (persisted ord) = offerId ord"
  "status (persisted ord) = status ord"
  "createdDate (persisted ord) = createdDate ord"
  by (simp_all add: persisted_def split: StatusDate.splits)

lemma persisted_setStatus [simp]: "persisted (setStatus now s ord) = setStatus now s ord"
  by (simp add: persisted_def setStatus_def)

lemma find_upsert:
  "order_id ord = i \<Longrightarrow> find (\<lambda>r. order_id r = i) (upsert ord rows) = Some ord"
  by (induction rows) auto

lemma find_save:
  "order_id ord = i \<Longrightarrow> find (\<lambda>r. order_id r = i) (save ord rows) = Some (persisted ord)"
  by (simp add: save_def find_upsert)

lemma findOne_None_class [simp]:
  "findOne env None wh rows = find wh rows"
  by (simp add: findOne_def in_class_def)

lemma submitOrder_not_opened:
  assumes "findOne env None (\<lambda>r. order_id r = orderId) (orders st) = Some ord"
    and "status ord \<noteq> opened"
  shows "submitOrder env now st orderId form walletAddress appId = (st, orderDbToApi None ord)
         \<and> (\<exists>p. orderDbToApi None ord = Inr p)"
  using assms
  by (simp add: submitOrder_def orderDbToApi_def Let_def)

lemma submitOrder_again:
  assumes "submitOrder env now st orderId form walletAddress appId = (st1, Inr p)"
  shows "submitOrder env' now' st1 orderId form' walletAddress' appId' = (st1, Inr p)"
proof (cases "find (\<lambda>r. order_id r = orderId) (orders st)")
  case None
  with assms show ?thesis by (simp add: submitOrder_def)
next
  case (Some ord)
  then have oid: "order_id ord = orderId"
    by (auto dest: find_Some_iff[THEN iffD1])
  show ?thesis
  proof (cases "status ord = opened")
    case False
    with Some assms show ?thesis
      by (simp add: submitOrder_def)
  next
    case True
    let ?ord' = "setStatus now pending ord"
    have id': "order_id ?ord' = orderId" using oid by (simp add: setStatus_def)
    have st': "status ?ord' \<noteq> opened" by (simp add: setStatus_def)
    from assms Some True
    have "orders st1 = save ?ord' (orders st) \<and> orderDbToApi None ?ord' = Inr p"
      by (auto simp: submitOrder_def Let_def split: if_splits option.splits)
    then have "find (\<lambda>r. order_id r = orderId) (orders st1) = Some ?ord'"
      and "orderDbToApi None ?ord' = Inr p"
      using find_save[OF id'] by simp_all
    with st' show ?thesis
      by (simp add: submitOrder_def)
  qed
qed

text \<open>
  C4. For an order that \<open>submitOrder\<close> finds with a status other than opened, the call
  returns the projection of that order and the state it was given: no row changes and
  the payment capability is not called. Consequently, after a submission that returned
  a projection, a second submission of the same order id, made on the state the first
  one left, returns the same projection and leaves that state as it is: the order
  became pending once.
\<close>

theorem submitOrder_idempotent:
  "(findOne env None (\<lambda>r. order_id r = orderId) (orders st) = Some ord \<and> status ord \<noteq> opened
      \<longrightarrow> submitOrder env now st orderId form walletAddress appId = (st, orderDbToApi None ord)
          \<and> (\<exists>p. orderDbToApi None ord = Inr p))
   \<and> (submitOrder env now st orderId form walletAddress appId = (st1, Inr p1)
      \<longrightarrow> submitOrder env' now' st1 orderId form' walletAddress' appId' = (st1, Inr p1))"
proof (rule conjI)
  show "findOne env None (\<lambda>r. order_id r = orderId) (orders st) = Some ord \<and> status ord \<noteq> opened
      \<longrightarrow> submitOrder env now st orderId form walletAddress appId = (st, orderDbToApi None ord)
          \<and> (\<exists>p. orderDbToApi None ord = Inr p)"
  proof
    assume h: "findOne env None (\<lambda>r. order_id r = orderId) (orders st) = Some ord \<and> status ord \<noteq> opened"
    from submitOrder_not_opened [OF conjunct1 [OF h] conjunct2 [OF h]]
    show "submitOrder env now st orderId form walletAddress appId = (st, orderDbToApi None ord)
          \<and> (\<exists>p. orderDbToApi None ord = Inr p)" .
  qed
next
  show "submitOrder env now st orderId form walletAddress appId = (st1, Inr p1)
      \<longrightarrow> submitOrder env' now' st1 orderId form' walletAddress' appId' = (st1, Inr p1)"
    by (rule impI) (rule submitOrder_again)
qed

theorem submitOrder_idempotent_witness:
  "\<exists>st1 p. submitOrder sample_env 2000
              (sample_state [sample_order ''T1'' ''U1'' ''O1'' opened None 1000] [sample_offer ''O1'' 5 1])
              ''T1'' None ''G1'' ''A1'' = (st1, Inr p)
      \<and> api_status p = pending
      \<and> map status (orders st1) = [pending]
      \<and> length (payments st1) = 1
      \<and> submitOrder sample_env 9000 st1 ''T1'' None ''G2'' ''A1'' = (st1, Inr p)"
proof -
  let ?st = "sample_state [sample_order ''T1'' ''U1'' ''O1'' opened None 1000] [sample_offer ''O1'' 5 1]"
  have "\<exists>st1 p. submitOrder sample_env 2000 ?st ''T1'' None ''G1'' ''A1'' = (st1, Inr p)
          \<and> api_status p = pending \<and> map status (orders st1) = [pending]
          \<and> length (payments st1) = 1"
    by (simp add: submitOrder_def sample_state_def sample_order_def sample_offer_def
        sample_env_def Offer_findOne_def expirationDate_def expiry_before_def minutes_def
        setStatus_def orderDbToApi_def isMarketplaceOrder_def save_def persisted_def Let_def)
  then obtain st1 p where first: "submitOrder sample_env 2000 ?st ''T1'' None ''G1'' ''A1'' = (st1, Inr p)"
    and rest: "api_status p = pending" "map status (orders st1) = [pending]" "length (payments st1) = 1"
    by (elim exE conjE)
  from submitOrder_idempotent [of sample_env "''T1''" ?st undefined 2000 None "''G1''" "''A1''" st1 p
      sample_env 9000 None "''G2''" "''A1''"] first
  have "submitOrder sample_env 9000 st1 ''T1'' None ''G2'' ''A1'' = (st1, Inr p)"
    by simp
  with first rest show ?thesis by (intro exI conjI)
qed

text \<open>
  C6. Submitting an opened order whose deadline, the creation date plus ten minutes,
  is before the clock fails with the error "open order ... has expired" and returns the
  state it was given: the order is not made pending and no payment is requested.
\<close>

theorem submitOrder_expired:
  assumes "findOne env None (\<lambda>r. order_id r = orderId) (orders st) = Some ord"
    and "status ord = opened"
    and "createdDate ord + 10 * 60 * 1000 < now"
  shows "submitOrder env now st orderId form walletAddress appId
           = (st, Inl (Error (''open order '' @ orderId @ '' has expired'')))"
  using assms
  by (simp add: submitOrder_def expirationDate_def expiry_before_def minutes_def)

theorem submitOrder_expired_witness:
  "createdDate (sample_order ''T1'' ''U1'' ''O1'' opened None 1000) + 10 * 60 * 1000 < 700000
   \<and> submitOrder sample_env 700000
        (sample_state [sample_order ''T1'' ''U1'' ''O1'' opened None 1000] [sample_offer ''O1'' 5 1])
        ''T1'' None ''G1'' ''A1''
      = (sample_state [sample_order ''T1'' ''U1'' ''O1'' opened None 1000] [sample_offer ''O1'' 5 1],
         Inl (Error ''open order T1 has expired''))"
  using submitOrder_expired [of sample_env "''T1''"
      "sample_state [sample_order ''T1'' ''U1'' ''O1'' opened None 1000] [sample_offer ''O1'' 5 1]"
      "sample_order ''T1'' ''U1'' ''O1'' opened None 1000" 700000 None "''G1''" "''A1''"]
  by (simp add: sample_state_def sample_order_def)

section \<open>Cancelling an order\<close>

lemma getOne_opened_None:
  "(\<forall>r \<in> set rows. order_id r = i \<longrightarrow> status r \<noteq> opened)
   \<Longrightarrow> getOne None rows i (Some (Is opened)) = None"
  by (auto simp: getOne_def find_None_iff origin_filter_def)

lemma getOne_opened_Some:
  assumes "r \<in> set rows" and "order_id r = i" and "status r = opened"
  shows "\<exists>ord. getOne None rows i (Some (Is opened)) = Some ord \<and> order_id ord = i"
proof (cases "getOne None rows i (Some (Is opened))")
  case None
  with assms show ?thesis
    by (auto simp: getOne_def find_None_iff origin_filter_def)
next
  case (Some ord)
  then show ?thesis
    by (auto simp: getOne_def dest: find_Some_iff[THEN iffD1])
qed

text \<open>
  C5, as the code has it. When no order with the given id is opened, because the order
  is pending, completed or failed or because there is no order with that id,
  \<open>cancelOrder\<close> fails with the one error "no such open order ..." and returns the
  state it was given; the two cases are not told apart. When an order with that id is
  opened, \<open>cancelOrder\<close> deletes the rows with that id and keeps all others.
\<close>

theorem cancelOrder_guard:
  "((\<forall>r \<in> set (orders st). order_id r = orderId \<longrightarrow> status r \<noteq> opened)
      \<longrightarrow> cancelOrder st orderId = (st, Inl (Error (''no such open order '' @ orderId))))
   \<and> ((\<exists>r \<in> set (orders st). order_id r = orderId \<and> status r = opened)
      \<longrightarrow> cancelOrder st orderId
            = (st\<lparr>orders := filter (\<lambda>r. order_id r \<noteq> orderId) (orders st)\<rparr>, Inr ()))"
proof (intro conjI impI)
  assume "\<forall>r \<in> set (orders st). order_id r = orderId \<longrightarrow> status r \<noteq> opened"
  then show "cancelOrder st orderId = (st, Inl (Error (''no such open order '' @ orderId)))"
    by (simp add: cancelOrder_def getOne_opened_None)
next
  assume "\<exists>r \<in> set (orders st). order_id r = orderId \<and> status r = opened"
  then obtain ord where "getOne None (orders st) orderId (Some (Is opened)) = Some ord"
    and "order_id ord = orderId"
    using getOne_opened_Some by blast
  then show "cancelOrder st orderId
            = (st\<lparr>orders := filter (\<lambda>r. order_id r \<noteq> orderId) (orders st)\<rparr>, Inr ())"
    by (simp add: cancelOrder_def remove_def)
qed

theorem cancelOrder_guard_witness:
  "cancelOrder (sample_state [sample_order ''T1'' ''U1'' ''O1'' completed (Some 5000) 1000] []) ''T1''
     = (sample_state [sample_order ''T1'' ''U1'' ''O1'' completed (Some 5000) 1000] [],
        Inl (Error ''no such open order T1''))
   \<and> cancelOrder (sample_state [sample_order ''T1'' ''U1'' ''O1'' opened None 1000,
                                sample_order ''T2'' ''U1'' ''O2'' opened None 1000] []) ''T1''
     = (sample_state [sample_order ''T2'' ''U1'' ''O2'' opened None 1000] [], Inr ())"
  using cancelOrder_guard [of "sample_state [sample_order ''T1'' ''U1'' ''O1'' completed (Some 5000) 1000] []" "''T1''"]
    cancelOrder_guard [of "sample_state [sample_order ''T1'' ''U1'' ''O1'' opened None 1000,
                                sample_order ''T2'' ''U1'' ''O2'' opened None 1000] []" "''T1''"]
  by (simp add: sample_state_def sample_order_def)

text \<open>
  The claim as written fails: cancelling a pending order and cancelling an id that no
  order has give the same error.
\<close>

theorem cancelOrder_same_error:
  "cancelOrder (sample_state [sample_order ''T1'' ''U1'' ''O1'' pending (Some 5000) 1000] []) ''T1''
     = (sample_state [sample_order ''T1'' ''U1'' ''O1'' pending (Some 5000) 1000] [],
        Inl (Error ''no such open order T1''))
   \<and> cancelOrder (sample_state [] []) ''T1''
     = (sample_state [] [], Inl (Error ''no such open order T1''))"
  by (simp add: cancelOrder_def getOne_def sample_state_def sample_order_def origin_filter_def)

section \<open>Creating an order\<close>

lemma length_filter_upsert:
  "length (filter P (upsert ord rows)) \<le> length (filter P rows) + (if P ord then 1 else 0)"
  by (induction rows) auto

lemma length_filter_save:
  "length (filter P (save ord rows))
     \<le> length (filter P rows) + (if P (persisted ord) then 1 else 0)"
  by (simp add: save_def length_filter_upsert)

lemma length_filter_save_other:
  "\<not> P (persisted ord) \<Longrightarrow> length (filter P (save ord rows)) \<le> length (filter P rows)"
  using length_filter_save [of P ord rows] by simp

lemma mem_upsert: "ord \<in> set (upsert ord rows)"
  by (induction rows) auto

lemma mem_save: "persisted ord \<in> set (save ord rows)"
  by (simp add: save_def mem_upsert)

lemma toOpenOrder_opened:
  "status ord = opened
   \<Longrightarrow> toOpenOrder now ord = Inr \<lparr> open_id = order_id ord, expiration_date = createdDate ord + 10 * 60 * 1000 \<rparr>"
  by (simp add: toOpenOrder_def expirationDate_def minutes_def)

lemma in_class_own: "origin r = c \<Longrightarrow> in_class b (Some c) r"
  by (simp add: in_class_def)

lemma length_filter_conj:
  "length (filter (\<lambda>x. Q x \<and> P x) xs) \<le> length (filter P xs)"
  by (induction xs) auto

lemma findOne_Some_props:
  "findOne env cls wh rows = Some ord \<Longrightarrow> ord \<in> set rows \<and> wh ord"
  by (auto simp: findOne_def find_Some_iff)

lemma findOne_exists:
  assumes "r \<in> set rows" and "wh r" and "in_class (class_scoped env) cls r"
  shows "\<exists>ord. findOne env cls wh rows = Some ord"
proof (cases "findOne env cls wh rows")
  case None
  with assms show ?thesis by (auto simp: findOne_def find_None_iff)
next
  case (Some ord)
  then show ?thesis by simp
qed

lemma createMarketplaceOrder_existing:
  assumes offer: "Offer_findOne (offers st) oid = Some offer"
    and row: "r \<in> set (orders st)" "origin r = marketplace" "userId r = uid" "offerId r = oid"
      "status r = opened"
  shows "\<exists>ord \<in> set (orders st). userId ord = uid \<and> offerId ord = oid \<and> status ord = opened
           \<and> createMarketplaceOrder env now newId st oid uid
               = (st, Inr \<lparr> open_id = order_id ord,
                            expiration_date = createdDate ord + 10 * 60 * 1000 \<rparr>)"
proof -
  let ?wh = "\<lambda>r. userId r = uid \<and> offerId r = oid \<and> status r = opened"
  have "in_class (class_scoped env) (Some marketplace) r"
    using row by (simp add: in_class_own)
  with row obtain ord where found: "findOne env (Some marketplace) ?wh (orders st) = Some ord"
    using findOne_exists [of r "orders st" ?wh env "Some marketplace"] by auto
  then have props: "ord \<in> set (orders st)" "?wh ord"
    using findOne_Some_props [OF found] by simp_all
  then have "createMarketplaceOrder env now newId st oid uid
               = (st, Inr \<lparr> open_id = order_id ord,
                            expiration_date = createdDate ord + 10 * 60 * 1000 \<rparr>)"
    using offer found by (simp add: createMarketplaceOrder_def toOpenOrder_opened)
  with props show ?thesis by blast
qed

lemma open_count_save_other:
  assumes "\<not> (origin ord = marketplace \<and> status ord = opened)"
  shows "open_count (st\<lparr>orders := save ord (orders st)\<rparr>) u off \<le> open_count st u off"
  using assms by (auto simp: open_count_def intro!: length_filter_save_other)

lemma open_count_payments [simp]:
  "open_count (st\<lparr>payments := ps\<rparr>) u off = open_count st u off"
  by (simp add: open_count_def)

lemma open_count_create:
  assumes inv: "\<forall>u off. open_count st u off \<le> 1"
  shows "open_count (fst (createMarketplaceOrder env now newId st oid uid)) u off \<le> 1"
proof (cases "Offer_findOne (offers st) oid")
  case None
  with inv show ?thesis by (simp add: createMarketplaceOrder_def)
next
  case (Some offer)
  let ?wh = "\<lambda>r. userId r = uid \<and> offerId r = oid \<and> status r = opened"
  show ?thesis
  proof (cases "findOne env (Some marketplace) ?wh (orders st)")
    case found: (Some ord)
    with Some inv show ?thesis by (simp add: createMarketplaceOrder_def)
  next
    case None
    then have none: "\<forall>r \<in> set (orders st). \<not> (?wh r \<and> in_class (class_scoped env) (Some marketplace) r)"
      by (simp add: findOne_def find_None_iff)
    have "\<not> (origin r = marketplace \<and> userId r = uid \<and> offerId r = oid \<and> status r = opened)"
      if "r \<in> set (orders st)" for r
      using none that in_class_own [of r marketplace "class_scoped env"] by blast
    then have zero: "open_count st uid oid = 0"
      by (simp add: open_count_def filter_empty_conv)
    show ?thesis
    proof (cases "create env now newId st offer oid uid")
      case no: None
      with Some None inv show ?thesis
        by (simp add: createMarketplaceOrder_def)
    next
      case (Some res)
      obtain st' ord where res: "res = (st', ord)" by (cases res)
      let ?new = "new_order marketplace newId now uid oid (offer_amount offer) (offer_type offer) (order_meta offer)"
      from Some res have st': "st' = st\<lparr>orders := save ?new (orders st)\<rparr>"
        by (auto simp: create_def Let_def split: if_splits)
      let ?P = "\<lambda>r. origin r = marketplace \<and> userId r = u \<and> offerId r = off \<and> status r = opened"
      have le: "open_count st' u off \<le> open_count st u off + (if ?P ?new then 1 else 0)"
        unfolding st' open_count_def using length_filter_save [of ?P ?new "orders st"] by simp
      have "open_count st' u off \<le> 1"
      proof (cases "u = uid \<and> off = oid")
        case True
        with le zero show ?thesis by (auto split: if_splits)
      next
        case False
        then have "\<not> ?P ?new" by (auto simp: new_order_def)
        with le have "open_count st' u off \<le> open_count st u off" by simp
        with inv show ?thesis by (blast intro: le_trans)
      qed
      with \<open>Offer_findOne (offers st) oid = Some offer\<close> None Some res show ?thesis
        by (simp add: createMarketplaceOrder_def)
    qed
  qed
qed

lemma open_count_createExternal:
  "open_count (fst (createExternalOrder env now newId st jwt uid)) u off \<le> open_count st u off"
  by (auto simp: createExternalOrder_def Let_def new_order_def
      split: sum.splits option.splits intro!: open_count_save_other)

lemma open_count_submit:
  "open_count (fst (submitOrder env now st orderId form w app)) u off \<le> open_count st u off"
  by (auto simp: submitOrder_def Let_def setStatus_def
      split: option.splits intro!: open_count_save_other)

lemma open_count_cancel:
  "open_count (fst (cancelOrder st orderId)) u off \<le> open_count st u off"
  by (auto simp: cancelOrder_def remove_def open_count_def length_filter_conj split: option.splits)

lemma open_count_checkIfTimedOut:
  "open_count (fst (checkIfTimedOut env now st r)) u off \<le> open_count st u off"
  by (auto simp: checkIfTimedOut_def Let_def setStatus_def intro!: open_count_save_other)

lemma open_count_getOrder:
  "open_count (fst (getOrder env now st orderId)) u off \<le> open_count st u off"
proof (cases "getOne None (orders st) orderId (Some (IsNot opened))")
  case None
  then show ?thesis by (simp add: getOrder_def)
next
  case (Some ord)
  then have "fst (getOrder env now st orderId) = fst (checkIfTimedOut env now st ord)"
    by (simp add: getOrder_def split: prod.splits)
  then show ?thesis by (simp add: open_count_checkIfTimedOut)
qed


section \<open>What the reads change\<close>

lemma snd_checkIfTimedOut:
  "snd (checkIfTimedOut env now st r)
     = (if status r = pending \<and> expiry_before (expirationDate now r) now
        then setStatus now failed r else r)"
  by (simp add: checkIfTimedOut_def Let_def)

lemma fst_history_step:
  "fst (case res of (st2, Inl e) \<Rightarrow> (st2, Inl e) | (st2, Inr as) \<Rightarrow> (st2, Inr (a # as))) = fst res"
  by (simp split: prod.splits sum.splits)

lemma open_count_history_map:
  "open_count (fst (history_map env now st rows)) u off \<le> open_count st u off"
proof (induction rows arbitrary: st)
  case Nil
  then show ?case by simp
next
  case (Cons r rs)
  obtain st1 r' where c: "checkIfTimedOut env now st r = (st1, r')"
    by (cases "checkIfTimedOut env now st r")
  have a: "open_count st1 u off \<le> open_count st u off"
    using open_count_checkIfTimedOut [of env now st r u off] c by simp
  show ?case
  proof (cases "orderDbToApi None r'")
    case (Inl e)
    with c a show ?thesis by simp
  next
    case (Inr p)
    with c have "fst (history_map env now st (r # rs)) = fst (history_map env now st1 rs)"
      by (simp add: fst_history_step)
    with Cons.IH [of st1] a show ?thesis by simp
  qed
qed

lemma fst_getOrderHistory:
  "fst (getOrderHistory env now st uid limit before after)
     = fst (history_map env now st
              (getAll (nulls_first env) None (orders st) uid (Some (IsNot opened))
                 (Some (case limit of None \<Rightarrow> 25 | Some n \<Rightarrow> n))))"
  by (simp add: getOrderHistory_def Let_def split: prod.splits sum.splits)

lemma open_count_apply_call:
  assumes "\<forall>u off. open_count st u off \<le> 1"
  shows "open_count (apply_call st c) u off \<le> 1"
proof -
  obtain env call where c: "c = (env, call)" by (cases c)
  have base: "open_count st u off \<le> 1" using assms by simp
  show ?thesis
  proof (cases call)
    case (CreateMarketplaceOrder now newId oid uid)
    with c show ?thesis
      using open_count_create [OF assms, of env now newId oid uid u off] by simp
  next
    case (CreateExternalOrder now newId jwt uid)
    with c show ?thesis
      using le_trans [OF open_count_createExternal base] by simp
  next
    case (SubmitOrder now orderId form w app)
    with c show ?thesis
      using le_trans [OF open_count_submit base] by simp
  next
    case (CancelOrder orderId)
    with c show ?thesis
      using le_trans [OF open_count_cancel base] by simp
  next
    case (GetOrder now orderId)
    with c show ?thesis
      using le_trans [OF open_count_getOrder base] by simp
  next
    case (GetOrderHistory now uid limit before after)
    with c show ?thesis
      using le_trans [OF open_count_history_map base] by (simp add: fst_getOrderHistory)
  qed
qed

lemma open_count_run:
  "\<forall>u off. open_count st u off \<le> 1 \<Longrightarrow> open_count (run st calls) u off \<le> 1"
proof (induction calls arbitrary: st)
  case Nil
  then show ?case by (simp add: run_def)
next
  case (Cons c cs)
  have "\<forall>u off. open_count (apply_call st c) u off \<le> 1"
    using open_count_apply_call [OF Cons.prems] by simp
  from Cons.IH [OF this] show ?case by (simp add: run_def)
qed

section \<open>One opened order per user and offer\<close>

text \<open>
  Requests served one after the other. When an opened marketplace order of the user for
  the offer is in the table (and the offer exists), \<open>createMarketplaceOrder\<close> returns
  the id and deadline of an opened order of that user for that offer that is already in
  the table, and the state it was given: nothing is persisted. And whatever requests are
  served one after the other, a table with at most one opened marketplace order for
  every user and offer keeps that property.
\<close>

lemma one_open_served_in_turn:
  "(Offer_findOne (offers st) oid = Some offer \<and> r \<in> set (orders st) \<and> origin r = marketplace
      \<and> userId r = uid \<and> offerId r = oid \<and> status r = opened
     \<longrightarrow> (\<exists>ord \<in> set (orders st). userId ord = uid \<and> offerId ord = oid \<and> status ord = opened
           \<and> createMarketplaceOrder env now newId st oid uid
               = (st, Inr \<lparr> open_id = order_id ord,
                            expiration_date = createdDate ord + 10 * 60 * 1000 \<rparr>)))
   \<and> ((\<forall>u off. open_count st0 u off \<le> 1) \<longrightarrow> (\<forall>u off. open_count (run st0 calls) u off \<le> 1))"
proof (rule conjI)
  show "Offer_findOne (offers st) oid = Some offer \<and> r \<in> set (orders st) \<and> origin r = marketplace
      \<and> userId r = uid \<and> offerId r = oid \<and> status r = opened
     \<longrightarrow> (\<exists>ord \<in> set (orders st). userId ord = uid \<and> offerId ord = oid \<and> status ord = opened
           \<and> createMarketplaceOrder env now newId st oid uid
               = (st, Inr \<lparr> open_id = order_id ord,
                            expiration_date = createdDate ord + 10 * 60 * 1000 \<rparr>))"
    using createMarketplaceOrder_existing [of st oid offer r uid env now newId] by blast
next
  show "(\<forall>u off. open_count st0 u off \<le> 1) \<longrightarrow> (\<forall>u off. open_count (run st0 calls) u off \<le> 1)"
    using open_count_run [of st0 calls] by blast
qed

text \<open>The call served alone is its lookups followed at once by the rest.\<close>

lemma createMarketplaceOrder_parts:
  "createMarketplaceOrder env now newId st oid uid
     = (case createMarketplaceOrder_lookup env st oid uid of
          Inl e \<Rightarrow> (st, Inl e)
        | Inr looked \<Rightarrow> createMarketplaceOrder_rest env now newId st oid uid looked)"
  by (simp add: createMarketplaceOrder_def createMarketplaceOrder_lookup_def
      createMarketplaceOrder_rest_def split: option.splits)

text \<open>
  C8, where the code departs from it. Two requests of the same user for the same offer
  overlap on an empty table: both make their lookups before either saves, so both find
  no opened order; each then runs \<open>create\<close>, the second on the table the first left.
  Both persist an opened order and return its id: the user has two opened marketplace
  orders for the offer.
\<close>

theorem createMarketplaceOrder_overlapping:
  "\<exists>looked st1 st2.
      createMarketplaceOrder_lookup sample_env
        (sample_state [] [sample_offer ''O1'' 5 2]) ''O1'' ''U1'' = Inr looked
    \<and> createMarketplaceOrder_rest sample_env 1000 ''T1''
        (sample_state [] [sample_offer ''O1'' 5 2]) ''O1'' ''U1'' looked
       = (st1, Inr \<lparr> open_id = ''T1'', expiration_date = 601000 \<rparr>)
    \<and> createMarketplaceOrder_rest sample_env 1001 ''T2'' st1 ''O1'' ''U1'' looked
       = (st2, Inr \<lparr> open_id = ''T2'', expiration_date = 601001 \<rparr>)
    \<and> map order_id (orders st2) = [''T1'', ''T2'']
    \<and> open_count st2 ''U1'' ''O1'' = 2"
  by (simp add: createMarketplaceOrder_lookup_def createMarketplaceOrder_rest_def create_def
      sample_state_def sample_offer_def sample_env_def Offer_findOne_def findOne_def
      count_rows_def in_class_def new_order_def toOpenOrder_def expirationDate_def minutes_def
      open_count_def save_def persisted_def Let_def)

section \<open>External orders\<close>

text \<open>
  C10. \<open>createExternalOrder\<close> checks no cap. When the token is accepted and no opened
  order of the user for the token's offer is among the rows that
  \<open>ExternalOrder.findOne\<close> sees, it saves a new opened external order of that user
  for that offer and returns its id with the deadline, creation plus ten minutes,
  whatever else the table holds. Its only failure is the one that \<open>validateSpendJWT\<close>
  raises.
\<close>

theorem createExternalOrder_no_cap:
  "(validateSpendJWT env jwt = Inr offer
      \<and> (\<forall>r \<in> set (orders st). \<not> (userId r = uid \<and> status r = opened \<and> offerId r = ext_id offer
                                    \<and> in_class (class_scoped env) (Some external) r))
     \<longrightarrow> (\<exists>ord. createExternalOrder env now newId st jwt uid
                  = (st\<lparr>orders := save ord (orders st)\<rparr>,
                     Inr \<lparr> open_id = newId, expiration_date = now + 10 * 60 * 1000 \<rparr>)
             \<and> persisted ord \<in> set (save ord (orders st))
             \<and> order_id ord = newId \<and> origin ord = external \<and> status ord = opened
             \<and> userId ord = uid \<and> offerId ord = ext_id offer))
   \<and> (snd (createExternalOrder env now newId st jwt uid) = Inl e
     \<longrightarrow> validateSpendJWT env jwt = Inl e)"
proof (rule conjI)
  show "validateSpendJWT env jwt = Inr offer
      \<and> (\<forall>r \<in> set (orders st). \<not> (userId r = uid \<and> status r = opened \<and> offerId r = ext_id offer
                                    \<and> in_class (class_scoped env) (Some external) r))
     \<longrightarrow> (\<exists>ord. createExternalOrder env now newId st jwt uid
                  = (st\<lparr>orders := save ord (orders st)\<rparr>,
                     Inr \<lparr> open_id = newId, expiration_date = now + 10 * 60 * 1000 \<rparr>)
             \<and> persisted ord \<in> set (save ord (orders st))
             \<and> order_id ord = newId \<and> origin ord = external \<and> status ord = opened
             \<and> userId ord = uid \<and> offerId ord = ext_id offer)"
  proof
    assume h: "validateSpendJWT env jwt = Inr offer
      \<and> (\<forall>r \<in> set (orders st). \<not> (userId r = uid \<and> status r = opened \<and> offerId r = ext_id offer
                                    \<and> in_class (class_scoped env) (Some external) r))"
    let ?ord = "new_order external newId now uid (ext_id offer) (ext_amount offer) spend
                  \<lparr> title = ext_title offer, description = ext_description offer,
                    call_to_action = None, content = None,
                    wallet_address = Some (ext_wallet_address offer) \<rparr>"
    from h have none: "findOne env (Some external)
            (\<lambda>r. userId r = uid \<and> status r = opened \<and> offerId r = ext_id offer) (orders st) = None"
      by (simp add: findOne_def find_None_iff)
    have "toOpenOrder now ?ord = Inr \<lparr> open_id = newId, expiration_date = now + 10 * 60 * 1000 \<rparr>"
      by (simp add: toOpenOrder_opened new_order_def)
    with h none have "createExternalOrder env now newId st jwt uid
                  = (st\<lparr>orders := save ?ord (orders st)\<rparr>,
                     Inr \<lparr> open_id = newId, expiration_date = now + 10 * 60 * 1000 \<rparr>)"
      by (simp add: createExternalOrder_def Let_def)
    moreover have "persisted ?ord \<in> set (save ?ord (orders st))" by (rule mem_save)
    moreover have "order_id ?ord = newId \<and> origin ?ord = external \<and> status ?ord = opened
             \<and> userId ?ord = uid \<and> offerId ?ord = ext_id offer"
      by (simp add: new_order_def)
    ultimately show "\<exists>ord. createExternalOrder env now newId st jwt uid
                  = (st\<lparr>orders := save ord (orders st)\<rparr>,
                     Inr \<lparr> open_id = newId, expiration_date = now + 10 * 60 * 1000 \<rparr>)
             \<and> persisted ord \<in> set (save ord (orders st))
             \<and> order_id ord = newId \<and> origin ord = external \<and> status ord = opened
             \<and> userId ord = uid \<and> offerId ord = ext_id offer"
      by blast
  qed
next
  show "snd (createExternalOrder env now newId st jwt uid) = Inl e
     \<longrightarrow> validateSpendJWT env jwt = Inl e"
  proof
    assume err: "snd (createExternalOrder env now newId st jwt uid) = Inl e"
    show "validateSpendJWT env jwt = Inl e"
    proof (cases "validateSpendJWT env jwt")
      case (Inl e')
      with err show ?thesis by (simp add: createExternalOrder_def)
    next
      case (Inr offer)
      let ?wh = "\<lambda>r. userId r = uid \<and> status r = opened \<and> offerId r = ext_id offer"
      show ?thesis
      proof (cases "findOne env (Some external) ?wh (orders st)")
        case None
        with Inr err show ?thesis
          by (simp add: createExternalOrder_def Let_def toOpenOrder_opened new_order_def)
      next
        case (Some ord)
        then have "status ord = opened" using findOne_Some_props [OF Some] by simp
        with Inr Some err show ?thesis
          by (simp add: createExternalOrder_def toOpenOrder_opened)
      qed
    qed
  qed
qed

theorem createExternalOrder_no_cap_witness:
  "createExternalOrder sample_env 1000 ''T9''
      (sample_state [sample_order ''T1'' ''U1'' ''X1'' completed (Some 500) 100,
                     sample_order ''T2'' ''U1'' ''X1'' completed (Some 600) 200,
                     sample_order ''T3'' ''U2'' ''X1'' pending (Some 700) 300] [])
      ''jwt'' ''U1''
   = (sample_state [sample_order ''T1'' ''U1'' ''X1'' completed (Some 500) 100,
                    sample_order ''T2'' ''U1'' ''X1'' completed (Some 600) 200,
                    sample_order ''T3'' ''U2'' ''X1'' pending (Some 700) 300,
                    persisted (new_order external ''T9'' 1000 ''U1'' ''X1'' 5 spend
                      \<lparr> title = ''t'', description = ''d'', call_to_action = None,
                        content = None, wallet_address = Some ''G1'' \<rparr>)] [],
      Inr \<lparr> open_id = ''T9'', expiration_date = 601000 \<rparr>)"
proof -
  let ?st = "sample_state [sample_order ''T1'' ''U1'' ''X1'' completed (Some 500) 100,
                     sample_order ''T2'' ''U1'' ''X1'' completed (Some 600) 200,
                     sample_order ''T3'' ''U2'' ''X1'' pending (Some 700) 300] []"
  let ?offer = "\<lparr> ext_id = ''X1'', ext_amount = 5, ext_title = ''t'',
                   ext_description = ''d'', ext_wallet_address = ''G1'' \<rparr>"
  have pre: "validateSpendJWT sample_env ''jwt'' = Inr ?offer
      \<and> (\<forall>r \<in> set (orders ?st). \<not> (userId r = ''U1'' \<and> status r = opened \<and> offerId r = ext_id ?offer
                                    \<and> in_class (class_scoped sample_env) (Some external) r))"
    by (simp add: sample_env_def sample_state_def sample_order_def)
  from createExternalOrder_no_cap [of sample_env "''jwt''" ?offer ?st "''U1''" 1000 "''T9''" undefined] pre
  obtain ord where res: "createExternalOrder sample_env 1000 ''T9'' ?st ''jwt'' ''U1''
                  = (?st\<lparr>orders := save ord (orders ?st)\<rparr>,
                     Inr \<lparr> open_id = ''T9'', expiration_date = 1000 + 10 * 60 * 1000 \<rparr>)"
    by blast
  have "createExternalOrder sample_env 1000 ''T9'' ?st ''jwt'' ''U1''
     = (sample_state [sample_order ''T1'' ''U1'' ''X1'' completed (Some 500) 100,
                    sample_order ''T2'' ''U1'' ''X1'' completed (Some 600) 200,
                    sample_order ''T3'' ''U2'' ''X1'' pending (Some 700) 300,
                    persisted (new_order external ''T9'' 1000 ''U1'' ''X1'' 5 spend
                      \<lparr> title = ''t'', description = ''d'', call_to_action = None,
                        content = None, wallet_address = Some ''G1'' \<rparr>)] [],
      Inr \<lparr> open_id = ''T9'', expiration_date = 601000 \<rparr>)"
    using res
    by (simp add: createExternalOrder_def sample_env_def sample_state_def sample_order_def
        findOne_def in_class_def new_order_def toOpenOrder_def expirationDate_def minutes_def
        save_def persisted_def Let_def)
  then show ?thesis .
qed

section \<open>Timed-out orders on a read\<close>

lemma set_insert_row: "set (insert_row le x xs) = insert x (set xs)"
  by (induction xs) auto

lemma set_order_by: "set (order_by le xs) = set xs"
  by (induction xs) (simp_all add: order_by_def set_insert_row)

lemma set_getAll:
  "set (getAll nf cls rows uid st limit)
     \<subseteq> {r \<in> set rows. userId r = uid \<and> updateQueryWithStatus st r \<and> origin_filter cls r}"
  by (auto simp: getAll_def Let_def set_order_by split: option.splits dest: in_set_takeD)

lemma timed_out_projection:
  assumes "status r = pending" and "currentStatusDate r = Date d" and "d + 45 * 1000 < now"
  shows "\<exists>p. orderDbToApi None (snd (checkIfTimedOut env now st r)) = Inr p
             \<and> api_id p = order_id r \<and> api_status p = failed"
  using assms
  by (simp add: snd_checkIfTimedOut expirationDate_def expiry_before_def seconds_def
      setStatus_def orderDbToApi_def Let_def)

lemma projection_id:
  assumes "status r \<noteq> opened"
  shows "\<exists>p. orderDbToApi None (snd (checkIfTimedOut env now st r)) = Inr p \<and> api_id p = order_id r"
  using assms
  by (simp add: snd_checkIfTimedOut setStatus_def orderDbToApi_def Let_def)

lemma history_map_Inr:
  assumes "\<forall>r \<in> set rows. status r \<noteq> opened"
  shows "\<exists>as. snd (history_map env now st rows) = Inr as \<and> length as = length rows
           \<and> (\<forall>i < length rows. orderDbToApi None (snd (checkIfTimedOut env now st' (rows ! i))) = Inr (as ! i))"
  using assms
proof (induction rows arbitrary: st)
  case Nil
  then show ?case by simp
next
  case (Cons r rs)
  obtain st1 r' where c: "checkIfTimedOut env now st r = (st1, r')"
    by (cases "checkIfTimedOut env now st r")
  then have r': "r' = snd (checkIfTimedOut env now st' r)"
    using snd_checkIfTimedOut [of env now st r] snd_checkIfTimedOut [of env now st' r] by simp
  from Cons.prems obtain p where p: "orderDbToApi None r' = Inr p"
    using projection_id [of r env now st'] r' by auto
  from Cons.prems Cons.IH [of st1]
  obtain as where as: "snd (history_map env now st1 rs) = Inr as" "length as = length rs"
    "\<forall>i < length rs. orderDbToApi None (snd (checkIfTimedOut env now st' (rs ! i))) = Inr (as ! i)"
    by auto
  obtain st2 where st2: "history_map env now st1 rs = (st2, Inr as)"
    using as(1) by (cases "history_map env now st1 rs") simp
  have res: "snd (history_map env now st (r # rs)) = Inr (p # as)"
    using c p st2 by simp
  have "\<forall>i < length (r # rs). orderDbToApi None (snd (checkIfTimedOut env now st' ((r # rs) ! i))) = Inr ((p # as) ! i)"
  proof (intro allI impI)
    fix i assume "i < length (r # rs)"
    then show "orderDbToApi None (snd (checkIfTimedOut env now st' ((r # rs) ! i))) = Inr ((p # as) ! i)"
      using p r' as(3) by (cases i) simp_all
  qed
  with res as(2) show ?case by simp
qed

lemma snd_getOrderHistory:
  assumes "snd (history_map env now st
              (getAll (nulls_first env) None (orders st) uid (Some (IsNot opened))
                 (Some (case limit of None \<Rightarrow> 25 | Some n \<Rightarrow> n)))) = Inr as"
  shows "\<exists>ol. snd (getOrderHistory env now st uid limit before after) = Inr ol \<and> list_orders ol = as"
proof -
  obtain st' where "history_map env now st
              (getAll (nulls_first env) None (orders st) uid (Some (IsNot opened))
                 (Some (case limit of None \<Rightarrow> 25 | Some n \<Rightarrow> n))) = (st', Inr as)"
    using assms by (metis prod.collapse)
  then show ?thesis
    by (simp add: getOrderHistory_def Let_def)
qed

text \<open>
  C3. A read returns a pending order whose deadline, the status date plus 45 seconds,
  is before the clock with status failed. For \<open>getOrder\<close>: when the row it loads is
  such an order, the projection it returns has that order's id and status failed. For
  \<open>getOrderHistory\<close>: it returns one projection for each row of the page, in order and
  with the row's id, and the projection of such a row has status failed. Both hold for
  every \<open>save_landed\<close>, that is whether or not the save of the change has reached the
  table.
\<close>

theorem timed_out_read_is_failed:
  "(getOne None (orders st) orderId (Some (IsNot opened)) = Some ord \<and> status ord = pending
      \<and> currentStatusDate ord = Date d \<and> d + 45 * 1000 < now
     \<longrightarrow> (\<exists>p. snd (getOrder (env\<lparr>save_landed := landed\<rparr>) now st orderId) = Inr p
               \<and> api_id p = order_id ord \<and> api_status p = failed))
   \<and> (rows = getAll (nulls_first env) None (orders st) uid (Some (IsNot opened))
                (Some (case limit of None \<Rightarrow> 25 | Some n \<Rightarrow> n))
     \<longrightarrow> (\<exists>ol. snd (getOrderHistory (env\<lparr>save_landed := landed\<rparr>) now st uid limit before after) = Inr ol
            \<and> length (list_orders ol) = length rows
            \<and> (\<forall>i < length rows.
                  api_id (list_orders ol ! i) = order_id (rows ! i)
                  \<and> (status (rows ! i) = pending \<and> currentStatusDate (rows ! i) = Date d'
                       \<and> d' + 45 * 1000 < now
                     \<longrightarrow> api_status (list_orders ol ! i) = failed))))"
proof (rule conjI)
  let ?env = "env\<lparr>save_landed := landed\<rparr>"
  show "getOne None (orders st) orderId (Some (IsNot opened)) = Some ord \<and> status ord = pending
      \<and> currentStatusDate ord = Date d \<and> d + 45 * 1000 < now
     \<longrightarrow> (\<exists>p. snd (getOrder ?env now st orderId) = Inr p
               \<and> api_id p = order_id ord \<and> api_status p = failed)"
  proof
    assume h: "getOne None (orders st) orderId (Some (IsNot opened)) = Some ord \<and> status ord = pending
      \<and> currentStatusDate ord = Date d \<and> d + 45 * 1000 < now"
    then have "snd (getOrder ?env now st orderId) = orderDbToApi None (snd (checkIfTimedOut ?env now st ord))"
      by (simp add: getOrder_def split: prod.splits)
    with h timed_out_projection [of ord d now ?env st]
    show "\<exists>p. snd (getOrder ?env now st orderId) = Inr p
               \<and> api_id p = order_id ord \<and> api_status p = failed"
      by simp
  qed
next
  let ?env = "env\<lparr>save_landed := landed\<rparr>"
  show "rows = getAll (nulls_first env) None (orders st) uid (Some (IsNot opened))
                (Some (case limit of None \<Rightarrow> 25 | Some n \<Rightarrow> n))
     \<longrightarrow> (\<exists>ol. snd (getOrderHistory ?env now st uid limit before after) = Inr ol
            \<and> length (list_orders ol) = length rows
            \<and> (\<forall>i < length rows.
                  api_id (list_orders ol ! i) = order_id (rows ! i)
                  \<and> (status (rows ! i) = pending \<and> currentStatusDate (rows ! i) = Date d'
                       \<and> d' + 45 * 1000 < now
                     \<longrightarrow> api_status (list_orders ol ! i) = failed)))"
  proof
    assume rows: "rows = getAll (nulls_first env) None (orders st) uid (Some (IsNot opened))
                (Some (case limit of None \<Rightarrow> 25 | Some n \<Rightarrow> n))"
    have nonopen: "\<forall>r \<in> set rows. status r \<noteq> opened"
      using set_getAll [of "nulls_first env" None "orders st" uid "Some (IsNot opened)"
          "Some (case limit of None \<Rightarrow> 25 | Some n \<Rightarrow> n)"] rows by auto
    from history_map_Inr [OF nonopen, of ?env now st st]
    obtain as where as: "snd (history_map ?env now st rows) = Inr as" "length as = length rows"
      "\<forall>i < length rows. orderDbToApi None (snd (checkIfTimedOut ?env now st (rows ! i))) = Inr (as ! i)"
      by blast
    from as(1) rows obtain ol
      where ol: "snd (getOrderHistory ?env now st uid limit before after) = Inr ol" "list_orders ol = as"
      using snd_getOrderHistory [of ?env now st uid limit as before after] by auto
    have "api_id (as ! i) = order_id (rows ! i)
                  \<and> (status (rows ! i) = pending \<and> currentStatusDate (rows ! i) = Date d'
                       \<and> d' + 45 * 1000 < now
                     \<longrightarrow> api_status (as ! i) = failed)" if i: "i < length rows" for i
    proof -
      have mem: "rows ! i \<in> set rows" using i by simp
      with nonopen have "status (rows ! i) \<noteq> opened" by blast
      from projection_id [OF this, of ?env now st] as(3) i
      have id: "api_id (as ! i) = order_id (rows ! i)" by auto
      have "api_status (as ! i) = failed"
        if "status (rows ! i) = pending \<and> currentStatusDate (rows ! i) = Date d' \<and> d' + 45 * 1000 < now"
        using timed_out_projection [of "rows ! i" d' now ?env st] that as(3) i by auto
      with id show ?thesis by blast
    qed
    with ol as(2) show "\<exists>ol. snd (getOrderHistory ?env now st uid limit before after) = Inr ol
            \<and> length (list_orders ol) = length rows
            \<and> (\<forall>i < length rows.
                  api_id (list_orders ol ! i) = order_id (rows ! i)
                  \<and> (status (rows ! i) = pending \<and> currentStatusDate (rows ! i) = Date d'
                       \<and> d' + 45 * 1000 < now
                     \<longrightarrow> api_status (list_orders ol ! i) = failed))"
      by auto
  qed
qed

theorem timed_out_read_is_failed_witness:
  "(\<exists>p. snd (getOrder (sample_env\<lparr>save_landed := (\<lambda>i. True)\<rparr>) 100000
             (sample_state [sample_order ''T1'' ''U1'' ''O1'' pending (Some 5000) 1000,
                            sample_order ''T2'' ''U1'' ''O1'' completed (Some 9000) 2000] [])
             ''T1'') = Inr p
        \<and> api_id p = ''T1'' \<and> api_status p = failed)
   \<and> (\<exists>ol. snd (getOrderHistory (sample_env\<lparr>save_landed := (\<lambda>i. True)\<rparr>) 100000
             (sample_state [sample_order ''T1'' ''U1'' ''O1'' pending (Some 5000) 1000,
                            sample_order ''T2'' ''U1'' ''O1'' completed (Some 9000) 2000] [])
             ''U1'' None None None) = Inr ol
        \<and> length (list_orders ol) = 2
        \<and> api_id (list_orders ol ! 1) = ''T1'' \<and> api_status (list_orders ol ! 1) = failed)"
proof -
  let ?t1 = "sample_order ''T1'' ''U1'' ''O1'' pending (Some 5000) 1000"
  let ?t2 = "sample_order ''T2'' ''U1'' ''O1'' completed (Some 9000) 2000"
  let ?st = "sample_state [?t1, ?t2] []"
  let ?env = "sample_env\<lparr>save_landed := (\<lambda>i. True)\<rparr>"
  note inst = timed_out_read_is_failed [where st = ?st and orderId = "''T1''" and ord = ?t1
      and d = 5000 and now = 100000 and env = sample_env and landed = "\<lambda>i. True"
      and rows = "[?t2, ?t1]" and uid = "''U1''" and limit = None and d' = 5000
      and before = None and after = None]
  have pre1: "getOne None (orders ?st) ''T1'' (Some (IsNot opened)) = Some ?t1 \<and> status ?t1 = pending
      \<and> currentStatusDate ?t1 = Date 5000 \<and> (5000::int) + 45 * 1000 < 100000"
    by (simp add: getOne_def origin_filter_def sample_state_def sample_order_def)
  have pre2: "[?t2, ?t1] = getAll (nulls_first sample_env) None (orders ?st) ''U1'' (Some (IsNot opened))
                (Some (case None of None \<Rightarrow> 25 | Some n \<Rightarrow> n))"
    by (simp add: getAll_def order_by_def row_before_def origin_filter_def sample_state_def
        sample_order_def completion_date_column_def Let_def)
  from inst pre1 have a: "\<exists>p. snd (getOrder ?env 100000 ?st ''T1'') = Inr p
        \<and> api_id p = order_id ?t1 \<and> api_status p = failed"
    by blast
  from inst pre2 obtain ol where ol: "snd (getOrderHistory ?env 100000 ?st ''U1'' None None None) = Inr ol"
    "length (list_orders ol) = length [?t2, ?t1]"
    "\<forall>i < length [?t2, ?t1].
                  api_id (list_orders ol ! i) = order_id ([?t2, ?t1] ! i)
                  \<and> (status ([?t2, ?t1] ! i) = pending \<and> currentStatusDate ([?t2, ?t1] ! i) = Date 5000
                       \<and> 5000 + 45 * 1000 < (100000::int)
                     \<longrightarrow> api_status (list_orders ol ! i) = failed)"
    by blast
  from ol(3) have "api_id (list_orders ol ! 1) = ''T1'' \<and> api_status (list_orders ol ! 1) = failed"
    by (simp add: sample_order_def)
  with ol(1,2) a show ?thesis
    by (auto simp: sample_order_def)
qed

section \<open>The caps of an offer\<close>

lemma create_None_iff:
  "create env now newId st offer oid uid = None
     \<longleftrightarrow> offer_count env st oid = cap_total offer \<or> user_count env st uid oid = cap_per_user offer"
  by (simp add: create_def offer_count_def user_count_def Let_def)

lemma createMarketplaceOrder_at_cap:
  assumes "Offer_findOne (offers st) oid = Some offer"
    and "findOne env (Some marketplace)
           (\<lambda>r. userId r = uid \<and> offerId r = oid \<and> status r = opened) (orders st) = None"
    and "offer_count env st oid = cap_total offer \<or> user_count env st uid oid = cap_per_user offer"
  shows "createMarketplaceOrder env now newId st oid uid
           = (st, Inl (Error (''offer '' @ oid @ '' cap reached'')))"
  using assms create_None_iff [of env now newId st offer oid uid]
  by (simp add: createMarketplaceOrder_def)

lemma offers_createMarketplaceOrder:
  "offers (fst (createMarketplaceOrder env now newId st oid uid)) = offers st"
  by (auto simp: createMarketplaceOrder_def create_def Let_def split: option.splits)

lemma count_rows_save:
  "count_rows env cls wh (save ord rows) \<le> count_rows env cls wh rows + 1"
  using length_filter_save [of "\<lambda>r. wh r \<and> in_class (class_scoped env) cls r" ord rows]
  by (auto simp: count_rows_def split: if_splits)

lemma count_rows_save_other:
  "\<not> wh (persisted ord) \<Longrightarrow> count_rows env cls wh (save ord rows) \<le> count_rows env cls wh rows"
  using length_filter_save_other [of "\<lambda>r. wh r \<and> in_class (class_scoped env) cls r" ord rows]
  by (simp add: count_rows_def)

lemma offer_count_create:
  assumes offer: "Offer_findOne (offers st) oid = Some offer"
    and le: "offer_count env st oid \<le> cap_total offer"
  shows "offer_count env (fst (createMarketplaceOrder env now newId st oid' uid)) oid \<le> cap_total offer"
proof (cases "Offer_findOne (offers st) oid'")
  case None
  with le show ?thesis by (simp add: createMarketplaceOrder_def)
next
  case (Some offer')
  let ?wh = "\<lambda>r. userId r = uid \<and> offerId r = oid' \<and> status r = opened"
  show ?thesis
  proof (cases "findOne env (Some marketplace) ?wh (orders st)")
    case found: (Some ord)
    with Some le show ?thesis by (simp add: createMarketplaceOrder_def)
  next
    case None
    show ?thesis
    proof (cases "create env now newId st offer' oid' uid")
      case no: None
      with Some None le show ?thesis by (simp add: createMarketplaceOrder_def)
    next
      case (Some res)
      obtain st' ord where res: "res = (st', ord)" by (cases res)
      let ?new = "new_order marketplace newId now uid oid' (offer_amount offer') (offer_type offer') (order_meta offer')"
      from Some res have st': "st' = st\<lparr>orders := save ?new (orders st)\<rparr>"
        by (auto simp: create_def Let_def split: if_splits)
      from Some have under: "offer_count env st oid' \<noteq> cap_total offer'"
        using create_None_iff [of env now newId st offer' oid' uid] by auto
      have "offer_count env st' oid \<le> cap_total offer"
      proof (cases "oid' = oid")
        case True
        with offer \<open>Offer_findOne (offers st) oid' = Some offer'\<close> have "offer' = offer" by simp
        with under True le have "offer_count env st oid < cap_total offer" by simp
        moreover have "offer_count env st' oid \<le> offer_count env st oid + 1"
          unfolding st' offer_count_def using count_rows_save by simp
        ultimately show ?thesis by simp
      next
        case False
        then have "\<not> offerId ?new = oid" by (simp add: new_order_def)
        then have "offer_count env st' oid \<le> offer_count env st oid"
          unfolding st' offer_count_def using count_rows_save_other by simp
        with le show ?thesis by simp
      qed
      with \<open>Offer_findOne (offers st) oid' = Some offer'\<close> None Some res show ?thesis
        by (simp add: createMarketplaceOrder_def)
    qed
  qed
qed

text \<open>
  Marketplace creations served one after the other keep an offer within its total cap,
  when the table starts within it.
\<close>

lemma offer_cap_kept:
  assumes "Offer_findOne (offers st) oid = Some offer"
    and "offer_count env st oid \<le> cap_total offer"
    and "\<forall>c \<in> set calls. fst c = env \<and> is_create (snd c)"
  shows "offer_count env (run st calls) oid \<le> cap_total offer"
  using assms
proof (induction calls arbitrary: st)
  case Nil
  then show ?case by (simp add: run_def)
next
  case (Cons c cs)
  obtain call where c: "c = (env, call)" using Cons.prems(3) by (cases c) auto
  with Cons.prems(3) obtain now newId oid' uid where call: "call = CreateMarketplaceOrder now newId oid' uid"
    by (cases call) auto
  let ?st = "fst (createMarketplaceOrder env now newId st oid' uid)"
  have "Offer_findOne (offers ?st) oid = Some offer"
    using Cons.prems(1) by (simp add: offers_createMarketplaceOrder)
  moreover have "offer_count env ?st oid \<le> cap_total offer"
    using offer_count_create [OF Cons.prems(1,2)] .
  moreover have "\<forall>c \<in> set cs. fst c = env \<and> is_create (snd c)"
    using Cons.prems(3) by simp
  ultimately have "offer_count env (run ?st cs) oid \<le> cap_total offer"
    by (rule Cons.IH)
  with c call show ?case by (simp add: run_def)
qed

text \<open>
  The scenario of the specification: an offer with both caps 1; the first creation
  returns an open order, the creation for another user is refused.
\<close>

lemma cap_scenario:
  "createMarketplaceOrder sample_env 1000 ''T1'' (sample_state [] [sample_offer ''O1'' 1 1]) ''O1'' ''U1''
     = (sample_state [persisted (new_order marketplace ''T1'' 1000 ''U1'' ''O1'' 10 earn sample_meta)]
          [sample_offer ''O1'' 1 1],
        Inr \<lparr> open_id = ''T1'', expiration_date = 601000 \<rparr>)
   \<and> createMarketplaceOrder sample_env 2000 ''T2''
        (sample_state [persisted (new_order marketplace ''T1'' 1000 ''U1'' ''O1'' 10 earn sample_meta)]
          [sample_offer ''O1'' 1 1]) ''O1'' ''U2''
     = (sample_state [persisted (new_order marketplace ''T1'' 1000 ''U1'' ''O1'' 10 earn sample_meta)]
          [sample_offer ''O1'' 1 1],
        Inl (Error ''offer O1 cap reached''))"
  by (simp add: createMarketplaceOrder_def create_def sample_state_def sample_offer_def
      sample_env_def Offer_findOne_def findOne_def count_rows_def in_class_def new_order_def
      toOpenOrder_def expirationDate_def minutes_def save_def persisted_def Let_def)

text \<open>
  C1, where the code departs from it. \<open>create\<close> compares each count with its cap by
  \<open>===\<close>. With two orders already persisted for an offer whose total cap is 1, the
  count has passed the cap, the comparison is false, and the creation for a third user
  persists a third order and returns it.
\<close>

theorem createMarketplaceOrder_past_cap:
  "offer_count sample_env
      (sample_state [sample_order ''T1'' ''U1'' ''O1'' completed (Some 500) 100,
                     sample_order ''T2'' ''U2'' ''O1'' completed (Some 600) 200]
                    [sample_offer ''O1'' 1 1]) ''O1'' = 2
   \<and> createMarketplaceOrder sample_env 5000 ''T3''
      (sample_state [sample_order ''T1'' ''U1'' ''O1'' completed (Some 500) 100,
                     sample_order ''T2'' ''U2'' ''O1'' completed (Some 600) 200]
                    [sample_offer ''O1'' 1 1]) ''O1'' ''U3''
     = (sample_state [sample_order ''T1'' ''U1'' ''O1'' completed (Some 500) 100,
                      sample_order ''T2'' ''U2'' ''O1'' completed (Some 600) 200,
                      persisted (new_order marketplace ''T3'' 5000 ''U3'' ''O1'' 10 earn sample_meta)]
                     [sample_offer ''O1'' 1 1],
        Inr \<lparr> open_id = ''T3'', expiration_date = 605000 \<rparr>)"
  by (simp add: createMarketplaceOrder_def create_def sample_state_def sample_offer_def
      sample_order_def sample_env_def Offer_findOne_def findOne_def count_rows_def
      offer_count_def in_class_def new_order_def toOpenOrder_def expirationDate_def
      minutes_def save_def persisted_def Let_def)

section \<open>The order history\<close>

lemma sorted_insert_row:
  assumes total: "\<And>x y. le x y \<or> le y x"
    and trans: "\<And>x y z. le x y \<Longrightarrow> le y z \<Longrightarrow> le x z"
    and sorted: "sorted_wrt le xs"
  shows "sorted_wrt le (insert_row le x xs)"
  using sorted
proof (induction xs)
  case Nil
  then show ?case by simp
next
  case (Cons y ys)
  show ?case
  proof (cases "le x y")
    case True
    with Cons.prems trans show ?thesis by auto
  next
    case False
    with total have "le y x" by blast
    with Cons False show ?thesis by (auto simp: set_insert_row)
  qed
qed

lemma sorted_order_by:
  assumes "\<And>x y. le x y \<or> le y x"
    and "\<And>x y z. le x y \<Longrightarrow> le y z \<Longrightarrow> le x z"
  shows "sorted_wrt le (order_by le xs)"
proof (induction xs)
  case Nil
  then show ?case by (simp add: order_by_def)
next
  case (Cons x xs)
  have "order_by le (x # xs) = insert_row le x (order_by le xs)"
    by (simp add: order_by_def)
  with Cons assms show ?case by (simp add: sorted_insert_row)
qed

lemma date_desc_total: "a = b \<or> date_desc nf a b \<or> date_desc nf b a"
  by (cases a; cases b) auto

lemma date_desc_trans: "date_desc nf a b \<Longrightarrow> date_desc nf b c \<Longrightarrow> date_desc nf a c"
  by (cases a; cases b; cases c) auto

lemma date_desc_irrefl: "\<not> date_desc nf a a"
  by (cases a) auto

lemma row_before_total: "row_before nf a b \<or> row_before nf b a"
  using date_desc_total [of "completion_date_column a" "completion_date_column b" nf]
  by (auto simp: row_before_def)

lemma row_before_trans:
  assumes "row_before nf a b" and "row_before nf b c"
  shows "row_before nf a c"
proof (cases "completion_date_column a = completion_date_column b")
  case ab: True
  show ?thesis
  proof (cases "completion_date_column b = completion_date_column c")
    case True
    with ab assms show ?thesis by (auto simp: row_before_def)
  next
    case False
    with ab assms show ?thesis by (simp add: row_before_def)
  qed
next
  case ab: False
  show ?thesis
  proof (cases "completion_date_column b = completion_date_column c")
    case True
    with ab assms show ?thesis by (simp add: row_before_def)
  next
    case False
    with ab assms have d: "date_desc nf (completion_date_column a) (completion_date_column c)"
      by (auto simp: row_before_def intro: date_desc_trans)
    then have "completion_date_column a \<noteq> completion_date_column c"
      using date_desc_irrefl by metis
    with d show ?thesis by (simp add: row_before_def)
  qed
qed

text \<open>
  What \<open>getAll\<close> returns for the history: rows of the user that are not opened, in the
  order of \<open>completion_date DESC, id DESC\<close>, and no more than a limit that is not zero.
\<close>

lemma getAll_history_rows:
  "set (getAll nf None rows uid (Some (IsNot opened)) limit)
     \<subseteq> {r \<in> set rows. userId r = uid \<and> status r \<noteq> opened}
   \<and> sorted_wrt (row_before nf) (getAll nf None rows uid (Some (IsNot opened)) limit)
   \<and> (limit = Some n \<and> n \<noteq> 0 \<longrightarrow> length (getAll nf None rows uid (Some (IsNot opened)) limit) \<le> n)"
proof (intro conjI)
  show "set (getAll nf None rows uid (Some (IsNot opened)) limit)
     \<subseteq> {r \<in> set rows. userId r = uid \<and> status r \<noteq> opened}"
    using set_getAll [of nf None rows uid "Some (IsNot opened)" limit] by auto
next
  let ?sel = "order_by (row_before nf)
                (filter (\<lambda>r. userId r = uid \<and> updateQueryWithStatus (Some (IsNot opened)) r
                              \<and> origin_filter None r) rows)"
  have "sorted_wrt (row_before nf) ?sel"
    by (rule sorted_order_by) (rule row_before_total, rule row_before_trans)
  then show "sorted_wrt (row_before nf) (getAll nf None rows uid (Some (IsNot opened)) limit)"
    by (auto simp: getAll_def Let_def sorted_wrt_take split: option.splits)
next
  show "limit = Some n \<and> n \<noteq> 0 \<longrightarrow> length (getAll nf None rows uid (Some (IsNot opened)) limit) \<le> n"
    by (simp add: getAll_def Let_def)
qed

text \<open>The cursors are not read: any two pairs of cursors give the same answer.\<close>

lemma getOrderHistory_cursors_unused:
  "getOrderHistory env now st uid limit before after
     = getOrderHistory env now st uid limit before' after'"
  by (simp add: getOrderHistory_def)

text \<open>
  C2, where the code departs from it. Two completed orders of one user, a page size of
  one. The first request returns the newer order and the constant cursor; the request
  for the next page, made with that cursor as \<open>after\<close>, returns the same page again:
  the older order is on no page.
\<close>

theorem getOrderHistory_next_page_repeats:
  "\<exists>ol. getOrderHistory sample_env 5000
            (sample_state [sample_order ''T1'' ''U1'' ''O1'' completed (Some 1000) 100,
                           sample_order ''T2'' ''U1'' ''O1'' completed (Some 2000) 200] [])
            ''U1'' (Some 1) None None
          = (sample_state [sample_order ''T1'' ''U1'' ''O1'' completed (Some 1000) 100,
                           sample_order ''T2'' ''U1'' ''O1'' completed (Some 2000) 200] [], Inr ol)
      \<and> map api_id (list_orders ol) = [''T2'']
      \<and> cursor_after (paging ol) = ''MTAxNTExOTQ1MjAwNzI5NDE''
      \<and> getOrderHistory sample_env 5000
            (sample_state [sample_order ''T1'' ''U1'' ''O1'' completed (Some 1000) 100,
                           sample_order ''T2'' ''U1'' ''O1'' completed (Some 2000) 200] [])
            ''U1'' (Some 1) None (Some (cursor_after (paging ol)))
          = (sample_state [sample_order ''T1'' ''U1'' ''O1'' completed (Some 1000) 100,
                           sample_order ''T2'' ''U1'' ''O1'' completed (Some 2000) 200] [], Inr ol)"
  by (simp add: getOrderHistory_def getAll_def order_by_def row_before_def origin_filter_def
      checkIfTimedOut_def orderDbToApi_def isMarketplaceOrder_def completion_date_column_def
      sample_state_def
      sample_order_def sample_env_def Let_def)

section \<open>The keys the rate limiter reads\<close>

text \<open>
  The rounding at three numbers: one tenth, the bucket size of a window of 61 seconds,
  and a tie.
\<close>

lemma double_examples:
  "double (1 / 10) = 3602879701896397 / 36028797018963968"
  "double (61 / 60) = 1144664905290001 / 1125899906842624"
  "double (2 ^ 53 + 1) = 2 ^ 53"
  by code_simp+


















end
